theory Spec2Isabelle
  imports Main "HOL-Library.Sublist"
begin

section \<open>Python strings\<close>

text \<open>
  A Python \<open>str\<close> is a sequence of Unicode code points; \<open>len\<close>, slicing and
  \<open>strip\<close> count code points, so a string is a list of code points here.
  \<open>lit\<close> turns an ASCII literal into such a list.
\<close>

type_synonym pystr = "nat list"

definition lit :: "string \<Rightarrow> pystr" where
  "lit s = map of_char s"

text \<open>The code points that \<open>str.strip()\<close> removes (those with \<open>str.isspace()\<close>).\<close>

definition py_isspace :: "nat \<Rightarrow> bool" where
  "py_isspace c \<longleftrightarrow>
     (9 \<le> c \<and> c \<le> 13) \<or> (28 \<le> c \<and> c \<le> 32) \<or> c = 133 \<or> c = 160 \<or> c = 5760 \<or>
     (8192 \<le> c \<and> c \<le> 8202) \<or> c = 8232 \<or> c = 8233 \<or> c = 8239 \<or> c = 8287 \<or> c = 12288"

definition strip :: "pystr \<Rightarrow> pystr" where
  "strip s = rev (dropWhile py_isspace (rev (dropWhile py_isspace s)))"

text \<open>\<open>s.split(sep)\<close> for a one-character separator: always at least one piece.\<close>

fun split_str :: "nat \<Rightarrow> pystr \<Rightarrow> pystr list" where
  "split_str sep [] = [[]]"
| "split_str sep (c # cs) =
     (if c = sep then [] # split_str sep cs
      else (case split_str sep cs of
              [] \<Rightarrow> [[c]]
            | l # ls \<Rightarrow> (c # l) # ls))"

fun join :: "pystr \<Rightarrow> pystr list \<Rightarrow> pystr" where
  "join sep [] = []"
| "join sep [x] = x"
| "join sep (x # y # ys) = x @ sep @ join sep (y # ys)"

text \<open>\<open>s.replace(old, '')\<close> for a non-empty \<open>old\<close>: every occurrence, left to right.\<close>

fun remove_all :: "pystr \<Rightarrow> pystr \<Rightarrow> pystr" where
  "remove_all old [] = []"
| "remove_all old (c # cs) =
     (if old \<noteq> [] \<and> prefix old (c # cs)
      then remove_all old (drop (length old) (c # cs))
      else c # remove_all old cs)"

section \<open>Python values\<close>

text \<open>
  Every exception of the program is an instance of \<open>Exception\<close>; a constructor
  stands for the class and its subclasses (\<open>json.JSONDecodeError\<close> is a
  \<open>ValueError\<close>).
\<close>

datatype pyexc =
  ValueError | AttributeError | TypeError | KeyError | OverflowError
| SQLAlchemyError | OtherException

text \<open>
  A float is a mantissa and a binary exponent, or one of the special values that
  \<open>json.loads\<close> accepts (\<open>Infinity\<close>, \<open>-Infinity\<close>, \<open>NaN\<close>).
\<close>

datatype pyfloat = Finite int int | Infinity bool | NaN

text \<open>
  What \<open>json.loads\<close> can return. A dict is an association list, looked up from
  the left; \<open>json.loads\<close> returns dicts whose keys are distinct.
\<close>

datatype pyval =
  PNone | PBool bool | PInt int | PFloat pyfloat | PStr pystr
| PList "pyval list" | PDict "(pystr \<times> pyval) list"

fun float_nonzero :: "pyfloat \<Rightarrow> bool" where
  "float_nonzero (Finite m e) = (m \<noteq> 0)"
| "float_nonzero (Infinity s) = True"
| "float_nonzero NaN = True"

text \<open>Python truth value testing, as \<open>if v:\<close> and \<open>all(...)\<close> apply it.\<close>

fun truthy :: "pyval \<Rightarrow> bool" where
  "truthy PNone = False"
| "truthy (PBool b) = b"
| "truthy (PInt i) = (i \<noteq> 0)"
| "truthy (PFloat f) = float_nonzero f"
| "truthy (PStr s) = (s \<noteq> [])"
| "truthy (PList l) = (l \<noteq> [])"
| "truthy (PDict d) = (d \<noteq> [])"

text \<open>\<open>d.get(k, default)\<close> on a dict.\<close>

definition dict_get :: "(pystr \<times> pyval) list \<Rightarrow> pystr \<Rightarrow> pyval \<Rightarrow> pyval" where
  "dict_get d k dflt = (case map_of d k of None \<Rightarrow> dflt | Some v \<Rightarrow> v)"

text \<open>\<open>v[k]\<close> with a string key: only a dict that has the key answers.\<close>

definition subscript :: "pyval \<Rightarrow> pystr \<Rightarrow> pyexc + pyval" where
  "subscript v k =
     (case v of
        PDict d \<Rightarrow> (case map_of d k of None \<Rightarrow> Inl KeyError | Some x \<Rightarrow> Inr x)
      | _ \<Rightarrow> Inl TypeError)"

section \<open>Dates and times\<close>

record pydate =
  year :: nat
  month :: nat
  day :: nat

record pytime =
  hour :: nat
  minute :: nat
  second :: nat
  microsecond :: nat

record pydatetime =
  dt_date :: pydate
  dt_time :: pytime

text \<open>
  Clock times are compared by their offset from midnight, in microseconds; for fields
  in range this is the order of \<open>datetime.time\<close> and of a \<open>Time\<close> column.
\<close>

definition time_key :: "pytime \<Rightarrow> nat" where
  "time_key t = ((hour t * 60 + minute t) * 60 + second t) * 1000000 + microsecond t"

definition time_le :: "pytime \<Rightarrow> pytime \<Rightarrow> bool" where
  "time_le a b \<longleftrightarrow> time_key a \<le> time_key b"

definition min_date :: pydate where
  "min_date = \<lparr>year = 1, month = 1, day = 1\<rparr>"

definition max_date :: pydate where
  "max_date = \<lparr>year = 9999, month = 12, day = 31\<rparr>"

text \<open>The clock time with its hour and minute set from a number of minutes.\<close>

definition with_minutes :: "pytime \<Rightarrow> nat \<Rightarrow> pytime" where
  "with_minutes t k = t\<lparr>hour := k div 60, minute := k mod 60\<rparr>"

text \<open>
  \<open>(appt_dt - timedelta(minutes=30)).time()\<close>: the subtraction borrows from the
  previous day when the time is before 00:30, and raises \<open>OverflowError\<close> when there
  is no previous day. Only the clock time of the result is used.
\<close>

definition minus_30min_time :: "pydatetime \<Rightarrow> pyexc + pytime" where
  "minus_30min_time dt =
     (let t = dt_time dt; m = hour t * 60 + minute t in
      if 30 \<le> m then Inr (with_minutes t (m - 30))
      else if dt_date dt = min_date then Inl OverflowError
      else Inr (with_minutes t (m + 1440 - 30)))"

text \<open>\<open>(appt_dt + timedelta(minutes=30)).time()\<close>, carrying into the next day.\<close>

definition plus_30min_time :: "pydatetime \<Rightarrow> pyexc + pytime" where
  "plus_30min_time dt =
     (let t = dt_time dt; m = hour t * 60 + minute t in
      if m + 30 < 1440 then Inr (with_minutes t (m + 30))
      else if dt_date dt = max_date then Inl OverflowError
      else Inr (with_minutes t (m + 30 - 1440)))"

section \<open>The store, the collaborators and the trace of a request\<close>

text \<open>
  Rows of the two tables. \<open>Conversation.response\<close> and the name and type of an
  \<open>Appointment\<close> receive whatever value the model's JSON held, so they are Python
  values; the phone number and the inbound text are the form fields, strings.
\<close>

record conversation =
  c_sender :: pystr
  c_message :: pystr
  c_response :: pyval

record appointment =
  a_phone :: pystr
  a_name :: pyval
  a_type :: pyval
  a_date :: pydate
  a_time :: pytime

datatype row = ConvRow conversation | ApptRow appointment

datatype loglevel = Info | Warning | Error

text \<open>
  One event per call that leaves \<open>reply\<close>, in the order the calls are made:
  the queries, \<open>db.add\<close> with its \<open>db.commit\<close>, \<open>db.rollback\<close>, the model
  call, \<open>json.loads\<close>, \<open>datetime.strptime\<close>, \<open>send_message\<close>, the three calls
  inside \<open>sync_appt_to_sheet\<close>, and the logger (with the fixed part of its message).
  The \<open>print\<close> lines that echo the model's answer are not recorded.
\<close>

datatype event =
  QueryConversations pystr
| GenerateContent pystr pystr
| JsonLoads pystr
| AddCommit row
| Rollback
| SendMessage pystr pyval
| Strptime pystr
| QueryAppointments pydate pytime pytime
| SyncQueryAll
| SheetsGet
| SheetsUpdate "pyval list list"
| Log loglevel string

text \<open>
  The collaborators and library functions, which are not code of this program:
  the model call (given the inbound text and the context that the system instruction
  embeds; it returns \<open>response.text\<close>, which may be \<open>None\<close>, or raises),
  \<open>json.loads\<close>, \<open>datetime.strptime\<close> with the format \<open>%Y-%m-%d %H:%M\<close>,
  \<open>str()\<close> of a value that is not a string, the rows the spreadsheet returns, and
  for each other call, \<open>db.rollback\<close> among them, whether it raises. Only the logger is
  taken not to raise.
\<close>

record env =
  generate_content :: "pystr \<Rightarrow> pystr \<Rightarrow> pyexc + pystr option"
  json_loads :: "pystr \<Rightarrow> pyexc + pyval"
  strptime :: "pystr \<Rightarrow> pyexc + pydatetime"
  to_str :: "pyval \<Rightarrow> pystr"
  sheet_values :: "pystr list list"
  raises :: "event \<Rightarrow> pyexc option"

record world =
  conversations :: "conversation list"
  appointments :: "appointment list"
  events :: "event list"

definition emit :: "event \<Rightarrow> world \<Rightarrow> world" where
  "emit e w = w\<lparr>events := events w @ [e]\<rparr>"

text \<open>A call to a collaborator: it is recorded, and it raises or returns.\<close>

definition call :: "env \<Rightarrow> event \<Rightarrow> world \<Rightarrow> world \<times> pyexc option" where
  "call E e w = (emit e w, raises E e)"

text \<open>Sequencing: the rest runs only if nothing was raised.\<close>

fun and_then :: "world \<times> pyexc option \<Rightarrow> (world \<Rightarrow> world \<times> pyexc option) \<Rightarrow> world \<times> pyexc option" where
  "and_then (w, Some e) f = (w, Some e)"
| "and_then (w, None) f = f w"

text \<open>The events a run added to the trace it started with.\<close>

definition new_events :: "world \<Rightarrow> world \<Rightarrow> event list" where
  "new_events w w' = drop (length (events w)) (events w')"

section \<open>Step 4 of \<open>reply\<close>: parsing the model's answer\<close>

definition fallback_reply :: pystr where
  "fallback_reply = lit ''I'm having trouble processing that right now. Please try again.''"

definition default_reply :: pystr where
  "default_reply = lit ''I'm here to help with your real estate needs!''"

definition required_fields :: "pystr list" where
  "required_fields = [lit ''name'', lit ''type'', lit ''date'', lit ''time'']"

text \<open>
  Removing the Markdown fence: \<open>lines[1:-1]\<close> drops the first and the last line.
\<close>

definition strip_fence :: "pystr \<Rightarrow> pystr" where
  "strip_fence text =
     (let response_text = strip text in
      if prefix (lit ''```'') response_text then
        (let lines = split_str 10 response_text;
             response_text = join [10] (butlast (tl lines)) in
         if prefix (lit ''json'') response_text
         then strip (drop 4 response_text)
         else response_text)
      else response_text)"

text \<open>
  The validation of \<open>appointmentinfo\<close> (lines 112 to 116). \<open>appt_info.get\<close> exists
  only on a dict: on any other truthy value it raises \<open>AttributeError\<close>, after
  \<open>chat_response\<close> and \<open>appt_info\<close> have been assigned.
\<close>

definition validate_appt :: "pyval \<Rightarrow> pyexc + pyval \<times> event list" where
  "validate_appt appt_info =
     (if truthy appt_info then
        (case appt_info of
           PDict a \<Rightarrow>
             if list_all (\<lambda>field. truthy (dict_get a field PNone)) required_fields
             then Inr (appt_info, [])
             else Inr (PNone, [Log Info ''Appointment info incomplete, not saving''])
         | _ \<Rightarrow> Inl AttributeError)
      else Inr (appt_info, []))"

text \<open>
  The \<open>try\<close> block of step 4 with its \<open>except Exception\<close>: the result is
  \<open>chat_response\<close>, \<open>appt_info\<close> and the events of the step. Both variables keep
  their initial values until line 108 is reached; \<open>response.text.strip()\<close> raises
  when the text is \<open>None\<close>, and \<open>data.get\<close> raises when \<open>data\<close> is not a dict.
\<close>

definition parse_response :: "env \<Rightarrow> pystr option \<Rightarrow> pyval \<times> pyval \<times> event list" where
  "parse_response E text =
     (case text of
        None \<Rightarrow> (PStr fallback_reply, PNone, [Log Error ''Error parsing AI response''])
      | Some t \<Rightarrow>
          (let response_text = strip_fence t in
           case json_loads E response_text of
             Inl e \<Rightarrow>
               (PStr fallback_reply, PNone,
                [JsonLoads response_text, Log Error ''Error parsing AI response''])
           | Inr data \<Rightarrow>
               (case data of
                  PDict d \<Rightarrow>
                    (let chat_response = dict_get d (lit ''user_text'') (PStr default_reply);
                         appt_info = dict_get d (lit ''appointmentinfo'') PNone in
                     case validate_appt appt_info of
                       Inl e \<Rightarrow>
                         (chat_response, appt_info,
                          [JsonLoads response_text, Log Error ''Error parsing AI response''])
                     | Inr (appt_info', evs) \<Rightarrow>
                         (chat_response, appt_info', JsonLoads response_text # evs))
                | _ \<Rightarrow>
                    (PStr fallback_reply, PNone,
                     [JsonLoads response_text, Log Error ''Error parsing AI response'']))))"

section \<open>The spreadsheet mirror (\<open>sync_appt_to_sheet\<close>)\<close>

text \<open>Decimal digits of a number, padded with zeros to a fixed width.\<close>

definition zero_padded :: "nat \<Rightarrow> nat \<Rightarrow> pystr" where
  "zero_padded width n = map (\<lambda>i. 48 + (n div 10 ^ i) mod 10) (rev [0..<width])"

text \<open>\<open>str(a.date)\<close> and \<open>str(a.time)\<close>.\<close>

definition date_str :: "pydate \<Rightarrow> pystr" where
  "date_str d = zero_padded 4 (year d) @ [45] @ zero_padded 2 (month d) @ [45] @ zero_padded 2 (day d)"

definition time_str :: "pytime \<Rightarrow> pystr" where
  "time_str t =
     zero_padded 2 (hour t) @ [58] @ zero_padded 2 (minute t) @ [58] @ zero_padded 2 (second t) @
     (if microsecond t \<noteq> 0 then [46] @ zero_padded 6 (microsecond t) else [])"

definition default_header :: "pyval list" where
  "default_header =
     [PStr (lit ''type''), PStr (lit ''date''), PStr (lit ''time''),
      PStr (lit ''clientName''), PStr (lit ''phone''), PStr (lit ''status'')]"

text \<open>\<open>v or ""\<close>.\<close>

definition or_empty :: "pyval \<Rightarrow> pyval" where
  "or_empty v = (if truthy v then v else PStr [])"

definition appointment_row :: "appointment \<Rightarrow> pyval list" where
  "appointment_row a =
     [or_empty (a_type a), or_empty (PStr (date_str (a_date a))),
      or_empty (PStr (time_str (a_time a))), or_empty (a_name a),
      or_empty (PStr (a_phone a)), PStr []]"

text \<open>
  The function has a \<open>finally\<close> and no \<open>except\<close>: whatever the query or the
  spreadsheet calls raise leaves it. It reads the appointments and writes only to the
  spreadsheet.
\<close>

text \<open>Steps 3 to 5 of the function: the rows written back to the spreadsheet.\<close>

definition sheet_body :: "pystr list list \<Rightarrow> appointment list \<Rightarrow> pyval list list" where
  "sheet_body rows appts =
     (let header = (if rows \<noteq> [] then map PStr (hd rows) else default_header);
          data_rows = (if length rows > 1 then tl rows else []);
          rows_to_keep =
            filter (\<lambda>row. strip (if length row > 5 then row ! 5 else []) = []) data_rows
      in [header] @ map (map PStr) rows_to_keep @ map appointment_row appts)"

definition sync_appt_to_sheet :: "env \<Rightarrow> world \<Rightarrow> world \<times> pyexc option" where
  "sync_appt_to_sheet E w =
     and_then (call E SyncQueryAll w) (\<lambda>w1.
     and_then (call E SheetsGet w1) (\<lambda>w2.
       call E (SheetsUpdate (sheet_body (sheet_values E) (appointments w1))) w2))"

section \<open>Step 7 of \<open>reply\<close>: the appointment\<close>

text \<open>A value inside an f-string: a string as it is, anything else through \<open>str()\<close>.\<close>

definition fmt :: "env \<Rightarrow> pyval \<Rightarrow> pystr" where
  "fmt E v = (case v of PStr s \<Rightarrow> s | _ \<Rightarrow> to_str E v)"

text \<open>The three messages; code point 10003 is the check mark, 39 the apostrophe.\<close>

definition cancellation_msg :: "env \<Rightarrow> pyval \<Rightarrow> pyval \<Rightarrow> pyval \<Rightarrow> pystr" where
  "cancellation_msg E name_v date_v time_v =
     [10003] @ lit '' Cancellation noted. '' @ fmt E name_v @ [39] @
     lit ''s appointment on '' @ fmt E date_v @ lit '' at '' @ fmt E time_v @
     lit '' has been cancelled.''"

definition confirmation_msg :: "env \<Rightarrow> pyval \<Rightarrow> pyval \<Rightarrow> pyval \<Rightarrow> pyval \<Rightarrow> pystr" where
  "confirmation_msg E name_v type_v date_v time_v =
     [10003] @ lit '' Confirmed! '' @ fmt E name_v @ [39] @ lit ''s '' @ fmt E type_v @
     lit '' on '' @ fmt E date_v @ lit '' at '' @ fmt E time_v @ lit ''.''"

definition conflict_msg :: pystr where
  "conflict_msg =
     lit ''Sorry, Sherri already has an appointment at that time. Could you choose another time?''"

text \<open>\<open>Appointment(phone=..., name=appt_info['name'], type=appt_info['type'], ...)\<close>.\<close>

definition make_appointment :: "pystr \<Rightarrow> pyval \<Rightarrow> pydatetime \<Rightarrow> pyexc + appointment" where
  "make_appointment whatsapp_number appt_info appt_dt =
     (case subscript appt_info (lit ''name'') of
        Inl e \<Rightarrow> Inl e
      | Inr name_v \<Rightarrow>
          (case subscript appt_info (lit ''type'') of
             Inl e \<Rightarrow> Inl e
           | Inr type_v \<Rightarrow>
               Inr \<lparr>a_phone = whatsapp_number, a_name = name_v, a_type = type_v,
                    a_date = dt_date appt_dt, a_time = dt_time appt_dt\<rparr>))"

text \<open>\<open>db.add(appt); db.commit()\<close>: the row is in the table once the commit returns.\<close>

definition save_appointment :: "env \<Rightarrow> appointment \<Rightarrow> world \<Rightarrow> world \<times> pyexc option" where
  "save_appointment E appt w =
     (case call E (AddCommit (ApptRow appt)) w of
        (w', Some e) \<Rightarrow> (w', Some e)
      | (w', None) \<Rightarrow> (w'\<lparr>appointments := appointments w' @ [appt]\<rparr>, None))"

text \<open>Lines 149 to 161: the cancellation is saved and confirmed; no query is made.\<close>

definition cancel_flow ::
  "env \<Rightarrow> pystr \<Rightarrow> pyval \<Rightarrow> pyval \<Rightarrow> pyval \<Rightarrow> pydatetime \<Rightarrow> world \<Rightarrow> world \<times> pyexc option" where
  "cancel_flow E whatsapp_number appt_info date_v time_v appt_dt w =
     (case make_appointment whatsapp_number appt_info appt_dt of
        Inl e \<Rightarrow> (w, Some e)
      | Inr appt \<Rightarrow>
          and_then (save_appointment E appt w) (\<lambda>w1.
            call E (SendMessage whatsapp_number
                      (PStr (cancellation_msg E (a_name appt) date_v time_v)))
              (emit (Log Info ''Cancellation saved'') w1)))"

text \<open>
  Lines 165 to 172: the window and the query. The filter names the date and the two
  ends of the window and nothing else; \<open>first()\<close> gives a row or \<open>None\<close>.
\<close>

definition check_conflict :: "env \<Rightarrow> pydatetime \<Rightarrow> world \<Rightarrow> world \<times> (pyexc + appointment option)" where
  "check_conflict E appt_dt w =
     (case minus_30min_time appt_dt of
        Inl e \<Rightarrow> (w, Inl e)
      | Inr start_time \<Rightarrow>
          (case plus_30min_time appt_dt of
             Inl e \<Rightarrow> (w, Inl e)
           | Inr end_time \<Rightarrow>
               (case call E (QueryAppointments (dt_date appt_dt) start_time end_time) w of
                  (w', Some e) \<Rightarrow> (w', Inl e)
                | (w', None) \<Rightarrow>
                    (w', Inr (find (\<lambda>a. a_date a = dt_date appt_dt \<and>
                                         time_le start_time (a_time a) \<and>
                                         time_le (a_time a) end_time)
                                (appointments w'))))))"

text \<open>Lines 163 to 195: a booking is saved, mirrored and confirmed, or refused.\<close>

definition booking_flow ::
  "env \<Rightarrow> pystr \<Rightarrow> pyval \<Rightarrow> pyval \<Rightarrow> pyval \<Rightarrow> pydatetime \<Rightarrow> world \<Rightarrow> world \<times> pyexc option" where
  "booking_flow E whatsapp_number appt_info date_v time_v appt_dt w =
     (case check_conflict E appt_dt w of
        (w1, Inl e) \<Rightarrow> (w1, Some e)
      | (w1, Inr None) \<Rightarrow>
          (case make_appointment whatsapp_number appt_info appt_dt of
             Inl e \<Rightarrow> (w1, Some e)
           | Inr appt \<Rightarrow>
               and_then (save_appointment E appt w1) (\<lambda>w2.
               and_then (sync_appt_to_sheet E (emit (Log Info ''Appointment saved'') w2)) (\<lambda>w3.
                 call E (SendMessage whatsapp_number
                           (PStr (confirmation_msg E (a_name appt) (a_type appt) date_v time_v)))
                   w3)))
      | (w1, Inr (Some conflict)) \<Rightarrow>
          call E (SendMessage whatsapp_number (PStr conflict_msg))
            (emit (Log Warning ''Appointment conflict detected'') w1))"

text \<open>The body of the \<open>try\<close> of step 7, with the exception that leaves it, if any.\<close>

definition try_appointment :: "env \<Rightarrow> pystr \<Rightarrow> pyval \<Rightarrow> world \<Rightarrow> world \<times> pyexc option" where
  "try_appointment E whatsapp_number appt_info w =
     (case subscript appt_info (lit ''date'') of
        Inl e \<Rightarrow> (w, Some e)
      | Inr date_v \<Rightarrow>
          (case subscript appt_info (lit ''time'') of
             Inl e \<Rightarrow> (w, Some e)
           | Inr time_v \<Rightarrow>
               (let s = fmt E date_v @ [32] @ fmt E time_v;
                    w1 = emit (Strptime s) w in
                case strptime E s of
                  Inl e \<Rightarrow> (w1, Some e)
                | Inr appt_dt \<Rightarrow>
                    (case subscript appt_info (lit ''type'') of
                       Inl e \<Rightarrow> (w1, Some e)
                     | Inr type_v \<Rightarrow>
                         if type_v = PStr (lit ''cancellation'')
                         then cancel_flow E whatsapp_number appt_info date_v time_v appt_dt w1
                         else booking_flow E whatsapp_number appt_info date_v time_v appt_dt w1))))"

text \<open>
  The three handlers of step 7; the last one takes every other exception. Nothing
  encloses the handlers, so what \<open>db.rollback()\<close> raises at line 200 leaves \<open>reply\<close>.
\<close>

definition handle_appointment_error :: "env \<Rightarrow> pyexc \<Rightarrow> world \<Rightarrow> world \<times> pyexc option" where
  "handle_appointment_error E e w =
     (if e = ValueError then (emit (Log Error ''Invalid date/time format'') w, None)
      else if e = SQLAlchemyError
      then and_then (call E Rollback w) (\<lambda>w1.
             (emit (Log Error ''Error storing appointment'') w1, None))
      else (emit (Log Error ''Unexpected error saving appointment'') w, None))"

text \<open>Step 7: the \<open>try\<close> block and, when it raised, the handler that takes the exception.\<close>

definition process_appointment :: "env \<Rightarrow> pystr \<Rightarrow> pyval \<Rightarrow> world \<Rightarrow> world \<times> pyexc option" where
  "process_appointment E whatsapp_number appt_info w =
     (case try_appointment E whatsapp_number appt_info w of
        (w', None) \<Rightarrow> (w', None)
      | (w', Some e) \<Rightarrow> handle_appointment_error E e w')"

section \<open>The request handler \<open>reply\<close>\<close>

text \<open>Step 1: the last three inbound texts of the sender, oldest first.\<close>

definition context_text :: "world \<Rightarrow> pystr \<Rightarrow> pystr" where
  "context_text w whatsapp_number =
     (let last_msgs = take 3 (rev (filter (\<lambda>c. c_sender c = whatsapp_number) (conversations w))) in
      if last_msgs \<noteq> [] then join [10] (map c_message (rev last_msgs)) else [])"

text \<open>
  Step 5: a storage error is rolled back and logged; anything else leaves, and so does
  what \<open>db.rollback()\<close> raises at line 131.
\<close>

definition store_conversation :: "env \<Rightarrow> conversation \<Rightarrow> world \<Rightarrow> world \<times> pyexc option" where
  "store_conversation E c w =
     (case call E (AddCommit (ConvRow c)) w of
        (w', None) \<Rightarrow> (w'\<lparr>conversations := conversations w' @ [c]\<rparr>, None)
      | (w', Some e) \<Rightarrow>
          if e = SQLAlchemyError
          then and_then (call E Rollback w') (\<lambda>w1.
                 (emit (Log Error ''Error storing conversation'') w1, None))
          else (w', Some e))"

text \<open>
  Step 6, lines 135 and 136, on whatever value \<open>user_text\<close> held: \<open>len\<close> raises on
  \<open>None\<close>, a bool and a number, and a list or dict longer than 1600 cannot be
  sliced and extended with a string.
\<close>

definition truncate_reply :: "pyval \<Rightarrow> pyexc + pyval" where
  "truncate_reply chat_response =
     (case chat_response of
        PStr s \<Rightarrow> Inr (if length s > 1600 then PStr (take 1597 s @ lit ''...'') else chat_response)
      | PList l \<Rightarrow> if length l > 1600 then Inl TypeError else Inr chat_response
      | PDict d \<Rightarrow> if length d > 1600 then Inl TypeError else Inr chat_response
      | _ \<Rightarrow> Inl TypeError)"

text \<open>
  Steps 1 to 6: the result is the phone number, the reply as sent and \<open>appt_info\<close>,
  or the exception that ends the request. The failure of the model call is logged
  and raised again.
\<close>

definition answer :: "env \<Rightarrow> pystr \<Rightarrow> pystr \<Rightarrow> world \<Rightarrow> world \<times> (pyexc + pystr \<times> pyval \<times> pyval)" where
  "answer E Body From w =
     (let whatsapp_number = remove_all (lit ''whatsapp:'') From in
      case call E (QueryConversations whatsapp_number) w of
        (w1, Some e) \<Rightarrow> (w1, Inl e)
      | (w1, None) \<Rightarrow>
          (let ctx = context_text w1 whatsapp_number;
               w2 = emit (GenerateContent Body ctx) w1 in
           case generate_content E Body ctx of
             Inl e \<Rightarrow> (emit (Log Error ''AI call failed'') w2, Inl e)
           | Inr text \<Rightarrow>
               (case parse_response E text of
                  (chat_response, appt_info, evs) \<Rightarrow>
                    (let w3 = w2\<lparr>events := events w2 @ evs\<rparr> in
                     case store_conversation E
                            \<lparr>c_sender = whatsapp_number, c_message = Body,
                             c_response = chat_response\<rparr> w3 of
                       (w4, Some e) \<Rightarrow> (w4, Inl e)
                     | (w4, None) \<Rightarrow>
                         (case truncate_reply chat_response of
                            Inl e \<Rightarrow> (w4, Inl e)
                          | Inr sent \<Rightarrow>
                              (case call E (SendMessage whatsapp_number sent) w4 of
                                 (w5, Some e) \<Rightarrow> (w5, Inl e)
                               | (w5, None) \<Rightarrow> (w5, Inr (whatsapp_number, sent, appt_info))))))))"

text \<open>
  The whole handler: \<open>None\<close> when it returns, the exception when the request fails.
\<close>

definition reply :: "env \<Rightarrow> pystr \<Rightarrow> pystr \<Rightarrow> world \<Rightarrow> world \<times> pyexc option" where
  "reply E Body From w =
     (case answer E Body From w of
        (w5, Inl e) \<Rightarrow> (w5, Some e)
      | (w5, Inr (whatsapp_number, sent, appt_info)) \<Rightarrow>
          if truthy appt_info
          then process_appointment E whatsapp_number appt_info w5
          else (w5, None))"

section \<open>Vocabulary of the properties\<close>

text \<open>A field of \<open>appointmentinfo\<close> that is present with a truthy value.\<close>

definition field_present :: "(pystr \<times> pyval) list \<Rightarrow> pystr \<Rightarrow> bool" where
  "field_present a k = (case map_of a k of None \<Rightarrow> False | Some v \<Rightarrow> truthy v)"

text \<open>
  The calls that belong to the appointment: parsing the date, the conflict query, the
  write of the appointment and the spreadsheet mirror.
\<close>

fun is_appointment_event :: "event \<Rightarrow> bool" where
  "is_appointment_event (Strptime s) = True"
| "is_appointment_event (QueryAppointments d s e) = True"
| "is_appointment_event (AddCommit (ApptRow a)) = True"
| "is_appointment_event SyncQueryAll = True"
| "is_appointment_event SheetsGet = True"
| "is_appointment_event (SheetsUpdate v) = True"
| "is_appointment_event e = False"

fun is_send :: "event \<Rightarrow> bool" where
  "is_send (SendMessage n m) = True"
| "is_send e = False"

fun is_sync_event :: "event \<Rightarrow> bool" where
  "is_sync_event SyncQueryAll = True"
| "is_sync_event SheetsGet = True"
| "is_sync_event (SheetsUpdate v) = True"
| "is_sync_event e = False"

text \<open>The distance between two clock times, in microseconds, and a number of minutes.\<close>

definition time_apart :: "pytime \<Rightarrow> pytime \<Rightarrow> nat" where
  "time_apart a b =
     (if time_key a \<le> time_key b then time_key b - time_key a else time_key a - time_key b)"

definition minutes :: "nat \<Rightarrow> nat" where
  "minutes n = n * 60000000"

text \<open>
  What the resolver reports: the exception it raised, or whether it found a conflicting
  row. And what the query reads of a stored row: its date and its time.
\<close>

definition verdict :: "world \<times> (pyexc + appointment option) \<Rightarrow> pyexc + bool" where
  "verdict res = (case snd res of Inl e \<Rightarrow> Inl e | Inr c \<Rightarrow> Inr (c \<noteq> None))"

definition slot :: "appointment \<Rightarrow> pydate \<times> pytime" where
  "slot a = (a_date a, a_time a)"

section \<open>Scenarios\<close>

text \<open>
  Test doubles for the collaborators, after the scenarios of the specification: a model
  that answers with the inbound text itself, a JSON reader and a date reader that know
  the texts below and reject everything else, and a chosen set of failing calls.
\<close>

definition jane_fields :: "string \<Rightarrow> (pystr \<times> pyval) list" where
  "jane_fields kind =
     [(lit ''name'', PStr (lit ''Jane Doe'')), (lit ''type'', PStr (lit kind)),
      (lit ''date'', PStr (lit ''2026-03-02'')), (lit ''time'', PStr (lit ''14:00''))]"

definition jane :: "string \<Rightarrow> pyval" where
  "jane kind = PDict (jane_fields kind)"

definition booking_text :: pystr where
  \<open>booking_text = lit ''{"user_text": "Checking...", "appointmentinfo": {"name": "Jane Doe", "type": "showing", "date": "2026-03-02", "time": "14:00"}}''\<close>

definition cancel_text :: pystr where
  \<open>cancel_text = lit ''{"user_text": "Checking...", "appointmentinfo": {"name": "Jane Doe", "type": "cancellation", "date": "2026-03-02", "time": "14:00"}}''\<close>

definition bare_text :: pystr where
  \<open>bare_text = lit ''{"appointmentinfo": {"name": "Jane Doe", "type": "showing", "date": "2026-03-02", "time": "14:00"}}''\<close>

definition reply_fields :: "pyval \<Rightarrow> (pystr \<times> pyval) list" where
  "reply_fields info = [(lit ''user_text'', PStr (lit ''Checking...'')), (lit ''appointmentinfo'', info)]"

definition with_reply :: "pyval \<Rightarrow> pyval" where
  "with_reply info = PDict (reply_fields info)"

definition bare_fields :: "(pystr \<times> pyval) list" where
  "bare_fields = [(lit ''appointmentinfo'', jane ''showing'')]"

definition bare_data :: pyval where
  "bare_data = PDict bare_fields"

definition scenario_json :: "pystr \<Rightarrow> pyexc + pyval" where
  "scenario_json s =
     (if s = booking_text then Inr (with_reply (jane ''showing''))
      else if s = cancel_text then Inr (with_reply (jane ''cancellation''))
      else if s = bare_text then Inr bare_data
      else Inl ValueError)"

definition at_time :: "pydate \<Rightarrow> nat \<Rightarrow> nat \<Rightarrow> pydatetime" where
  "at_time d h m = \<lparr>dt_date = d, dt_time = \<lparr>hour = h, minute = m, second = 0, microsecond = 0\<rparr>\<rparr>"

definition march_2nd :: pydate where
  "march_2nd = \<lparr>year = 2026, month = 3, day = 2\<rparr>"

definition scenario_strptime :: "pystr \<Rightarrow> pyexc + pydatetime" where
  "scenario_strptime s =
     (if s = lit ''2026-03-02 14:00'' then Inr (at_time march_2nd 14 0) else Inl ValueError)"

definition echo :: "pystr \<Rightarrow> pystr \<Rightarrow> pyexc + pystr option" where
  "echo Body ctx = Inr (Some Body)"

definition placeholder :: "pyval \<Rightarrow> pystr" where
  "placeholder v = lit ''?''"

definition scenario_env :: "(event \<Rightarrow> pyexc option) \<Rightarrow> env" where
  "scenario_env failing =
     \<lparr>generate_content = echo, json_loads = scenario_json, strptime = scenario_strptime,
      to_str = placeholder, sheet_values = [], raises = failing\<rparr>"

definition no_failure :: "event \<Rightarrow> pyexc option" where
  "no_failure e = None"

definition sender :: pystr where
  "sender = lit ''whatsapp:+15550100''"

definition empty_world :: world where
  "empty_world = \<lparr>conversations = [], appointments = [], events = []\<rparr>"

definition jane_at :: "string \<Rightarrow> nat \<Rightarrow> nat \<Rightarrow> appointment" where
  "jane_at kind h m =
     \<lparr>a_phone = lit ''+15550100'', a_name = PStr (lit ''Jane Doe''), a_type = PStr (lit kind),
      a_date = march_2nd, a_time = \<lparr>hour = h, minute = m, second = 0, microsecond = 0\<rparr>\<rparr>"

definition jane_row :: "string \<Rightarrow> appointment" where
  "jane_row kind = jane_at kind 14 0"

definition world_with :: "appointment list \<Rightarrow> world" where
  "world_with rows = \<lparr>conversations = [], appointments = rows, events = []\<rparr>"

text \<open>A set of failing calls with one member, and two uses of it.\<close>

definition only :: "event \<Rightarrow> pyexc \<Rightarrow> event \<Rightarrow> pyexc option" where
  "only bad x e = (if e = bad then Some x else None)"

definition sheets_down :: "event \<Rightarrow> pyexc option" where
  "sheets_down = only SheetsGet OtherException"


text \<open>
  The state after steps 1 to 6 of a request from \<open>sender\<close> with inbound text \<open>t\<close>,
  started with no conversations and the given appointments.
\<close>

definition answered :: "pystr \<Rightarrow> appointment list \<Rightarrow> world" where
  "answered t rows =
     \<lparr>conversations =
        [\<lparr>c_sender = lit ''+15550100'', c_message = t, c_response = PStr (lit ''Checking...'')\<rparr>],
      appointments = rows,
      events =
        [QueryConversations (lit ''+15550100''), GenerateContent t [], JsonLoads t,
         AddCommit (ConvRow
           \<lparr>c_sender = lit ''+15550100'', c_message = t, c_response = PStr (lit ''Checking...'')\<rparr>),
         SendMessage (lit ''+15550100'') (PStr (lit ''Checking...''))]\<rparr>"

lemmas scenario_defs =
  jane_fields_def bare_fields_def reply_fields_def jane_def booking_text_def cancel_text_def bare_text_def with_reply_def bare_data_def
  scenario_json_def at_time_def march_2nd_def scenario_strptime_def echo_def placeholder_def
  scenario_env_def no_failure_def sender_def empty_world_def jane_at_def jane_row_def world_with_def

section \<open>The parser\<close>

lemma and_then_pair:
  "and_then (w, r) f = (case r of Some e \<Rightarrow> (w, Some e) | None \<Rightarrow> f w)"
  by (cases r) simp_all

lemma context_text_emit: "context_text (emit e w) n = context_text w n"
  by (simp add: context_text_def emit_def)

lemma validate_appt_events:
  "validate_appt v = Inr (v', evs) \<Longrightarrow> \<forall>e\<in>set evs. \<not> is_appointment_event e \<and> \<not> is_send e"
  by (auto simp: validate_appt_def split: if_splits pyval.splits)

lemma parse_response_events:
  "parse_response E text = (c, i, evs) \<Longrightarrow> \<forall>e\<in>set evs. \<not> is_appointment_event e \<and> \<not> is_send e"
  by (auto simp: parse_response_def Let_def split: option.splits sum.splits pyval.splits prod.splits
      dest!: validate_appt_events)

lemma parse_not_object:
  "\<forall>d. json_loads E (strip_fence t) \<noteq> Inr (PDict d) \<Longrightarrow>
   parse_response E (Some t) =
     (PStr fallback_reply, PNone, [JsonLoads (strip_fence t), Log Error ''Error parsing AI response''])"
  by (auto simp: parse_response_def Let_def split: sum.splits pyval.splits)

lemma answer_ok:
  assumes "answer E Body From w = (w5, Inr (n, sent, info))"
  shows "n = remove_all (lit ''whatsapp:'') From \<and>
         appointments w5 = appointments w \<and>
         (\<exists>text pre. generate_content E Body (context_text w n) = Inr text \<and>
            info = fst (snd (parse_response E text)) \<and>
            truncate_reply (fst (parse_response E text)) = Inr sent \<and>
            events w5 = events w @ pre @ [SendMessage n sent] \<and>
            (\<forall>e\<in>set pre. \<not> is_appointment_event e \<and> \<not> is_send e))"
  using assms
  apply (simp add: answer_def Let_def call_def context_text_emit store_conversation_def
      and_then_pair split: option.splits sum.splits prod.splits if_splits)
  apply (auto simp: emit_def dest!: parse_response_events)
  done

lemma answer_failed:
  assumes "answer E Body From w = (w5, Inl x)"
  shows "appointments w5 = appointments w \<and>
         (\<exists>pre. events w5 = events w @ pre \<and> (\<forall>e\<in>set pre. \<not> is_appointment_event e))"
  using assms
  apply (simp add: answer_def Let_def call_def context_text_emit store_conversation_def
      and_then_pair split: option.splits sum.splits prod.splits if_splits)
  apply (auto simp: emit_def dest!: parse_response_events)
  done

text \<open>
  Claim C2. When the text that reaches \<open>json.loads\<close> (the model's answer with its
  fence removed) is not a JSON object, because \<open>json.loads\<close> raises or returns
  something other than a dict, the parser returns normally with the fixed fallback
  reply and no intent, and the request that received this answer writes no appointment
  and makes none of the appointment's calls.
\<close>

theorem malformed_json_falls_back:
  assumes "\<forall>d. json_loads E (strip_fence t) \<noteq> Inr (PDict d)"
      and "generate_content E Body (context_text w (remove_all (lit ''whatsapp:'') From)) = Inr (Some t)"
  shows "parse_response E (Some t) =
           (PStr fallback_reply, PNone,
            [JsonLoads (strip_fence t), Log Error ''Error parsing AI response'']) \<and>
         appointments (fst (reply E Body From w)) = appointments w \<and>
         (\<forall>e\<in>set (new_events w (fst (reply E Body From w))). \<not> is_appointment_event e)"
proof -
  have parsed: "parse_response E (Some t) =
      (PStr fallback_reply, PNone, [JsonLoads (strip_fence t), Log Error ''Error parsing AI response''])"
    using assms(1) by (rule parse_not_object)
  obtain w5 res where a: "answer E Body From w = (w5, res)" by force
  show ?thesis
  proof (cases res)
    case (Inl x)
    with a have r: "reply E Body From w = (w5, Some x)" by (simp add: reply_def)
    from answer_failed [OF a [unfolded Inl]] r parsed show ?thesis
      by (auto simp: new_events_def)
  next
    case (Inr triple)
    obtain n sent info where triple: "triple = (n, sent, info)" by (cases triple) auto
    note ok = answer_ok [OF a [unfolded Inr triple]]
    from ok assms(2) have "info = fst (snd (parse_response E (Some t)))" by auto
    with parsed have "info = PNone" by simp
    with a Inr triple have r: "reply E Body From w = (w5, None)" by (simp add: reply_def)
    from ok r parsed show ?thesis by (auto simp: new_events_def)
  qed
qed

theorem malformed_json_falls_back_witness:
  "json_loads (scenario_env no_failure) (strip_fence (lit ''Hi there!'')) = Inl ValueError \<and>
   parse_response (scenario_env no_failure) (Some (lit ''Hi there!'')) =
     (PStr fallback_reply, PNone,
      [JsonLoads (strip_fence (lit ''Hi there!'')), Log Error ''Error parsing AI response'']) \<and>
   appointments (fst (reply (scenario_env no_failure) (lit ''Hi there!'') sender empty_world)) = []"
proof -
  have h0: "json_loads (scenario_env no_failure) (strip_fence (lit ''Hi there!'')) = Inl ValueError"
    by (simp add: scenario_defs strip_fence_def strip_def py_isspace_def lit_def)
  then have h1: "\<forall>d. json_loads (scenario_env no_failure) (strip_fence (lit ''Hi there!'')) \<noteq> Inr (PDict d)"
    by simp
  have h2: "generate_content (scenario_env no_failure) (lit ''Hi there!'')
              (context_text empty_world (remove_all (lit ''whatsapp:'') sender)) = Inr (Some (lit ''Hi there!''))"
    by (simp add: scenario_env_def echo_def)
  have e: "appointments empty_world = []" by (simp add: empty_world_def)
  from malformed_json_falls_back [OF h1 h2] h0 e show ?thesis by simp
qed

lemma strip_fence_scenario:
  "strip_fence booking_text = booking_text" "strip_fence cancel_text = cancel_text"
  "strip_fence bare_text = bare_text"
  by (simp_all add: strip_fence_def strip_def py_isspace_def lit_def
      booking_text_def cancel_text_def bare_text_def)

lemma scenario_texts_differ:
  "cancel_text \<noteq> booking_text" "bare_text \<noteq> booking_text" "bare_text \<noteq> cancel_text"
  by (simp_all add: lit_def booking_text_def cancel_text_def bare_text_def)

lemma parse_object:
  assumes "json_loads E (strip_fence t) = Inr (PDict d)"
  shows "parse_response E (Some t) =
     (case validate_appt (dict_get d (lit ''appointmentinfo'') PNone) of
        Inl e \<Rightarrow> (dict_get d (lit ''user_text'') (PStr default_reply),
                  dict_get d (lit ''appointmentinfo'') PNone,
                  [JsonLoads (strip_fence t), Log Error ''Error parsing AI response''])
      | Inr (i, evs) \<Rightarrow> (dict_get d (lit ''user_text'') (PStr default_reply), i,
                  JsonLoads (strip_fence t) # evs))"
  using assms by (simp add: parse_response_def Let_def split: sum.splits prod.splits)

lemma validate_dict:
  "validate_appt (PDict a) =
     Inr (if field_present a (lit ''name'') \<and> field_present a (lit ''type'') \<and>
             field_present a (lit ''date'') \<and> field_present a (lit ''time'')
          then (PDict a, [])
          else if a = [] then (PDict [], [])
          else (PNone, [Log Info ''Appointment info incomplete, not saving'']))"
  by (auto simp: validate_appt_def required_fields_def field_present_def dict_get_def
      split: option.splits)

text \<open>
  Claim C5. When the model's answer parses to an object whose \<open>appointmentinfo\<close> is an
  object, the parser keeps that object as the intent exactly when each of \<open>name\<close>,
  \<open>type\<close>, \<open>date\<close> and \<open>time\<close> is present with a truthy value. Otherwise the intent
  is falsy (\<open>None\<close>, or the empty object when \<open>appointmentinfo\<close> was empty), so the
  turn has no intent; nothing in between is kept.
\<close>

theorem intent_requires_all_four_fields:
  assumes "json_loads E (strip_fence t) = Inr (PDict d)"
      and "map_of d (lit ''appointmentinfo'') = Some (PDict a)"
  shows "fst (snd (parse_response E (Some t))) =
           (if field_present a (lit ''name'') \<and> field_present a (lit ''type'') \<and>
               field_present a (lit ''date'') \<and> field_present a (lit ''time'')
            then PDict a else if a = [] then PDict [] else PNone) \<and>
         (truthy (fst (snd (parse_response E (Some t)))) \<longleftrightarrow>
            field_present a (lit ''name'') \<and> field_present a (lit ''type'') \<and>
            field_present a (lit ''date'') \<and> field_present a (lit ''time''))"
proof -
  from assms(2) have g: "dict_get d (lit ''appointmentinfo'') PNone = PDict a"
    by (simp add: dict_get_def)
  have e: "field_present [] (lit ''name'') = False" by (simp add: field_present_def)
  show ?thesis
    using e by (auto simp: parse_object [OF assms(1)] g validate_dict)
qed

theorem intent_requires_all_four_fields_witness:
  "json_loads (scenario_env no_failure) (strip_fence booking_text) =
     Inr (PDict (reply_fields (jane ''showing''))) \<and>
   map_of (reply_fields (jane ''showing'')) (lit ''appointmentinfo'') =
     Some (PDict (jane_fields ''showing'')) \<and>
   field_present (jane_fields ''showing'') (lit ''name'') \<and>
   field_present (jane_fields ''showing'') (lit ''type'') \<and>
   field_present (jane_fields ''showing'') (lit ''date'') \<and>
   field_present (jane_fields ''showing'') (lit ''time'') \<and>
   fst (snd (parse_response (scenario_env no_failure) (Some booking_text))) =
     PDict (jane_fields ''showing'')"
proof -
  have h1: "json_loads (scenario_env no_failure) (strip_fence booking_text) =
      Inr (PDict (reply_fields (jane ''showing'')))"
    by (simp add: strip_fence_scenario scenario_env_def scenario_json_def with_reply_def)
  have h2: "map_of (reply_fields (jane ''showing'')) (lit ''appointmentinfo'') =
      Some (PDict (jane_fields ''showing''))"
    by (simp add: reply_fields_def jane_def lit_def)
  have f: "field_present (jane_fields ''showing'') (lit ''name'')"
      "field_present (jane_fields ''showing'') (lit ''type'')"
      "field_present (jane_fields ''showing'') (lit ''date'')"
      "field_present (jane_fields ''showing'') (lit ''time'')"
    by (simp_all add: field_present_def jane_fields_def lit_def)
  from intent_requires_all_four_fields [OF h1 h2] h1 h2 f show ?thesis by simp
qed

text \<open>
  Claim C6, as the specification states it, fails: an answer that is an object without
  \<open>user_text\<close> is not a parse failure. Here such an answer gets a reply that is not
  the fallback reply, and its intent is kept.
\<close>

theorem missing_user_text_counterexample:
  "json_loads (scenario_env no_failure) (strip_fence bare_text) = Inr (PDict bare_fields) \<and>
   map_of bare_fields (lit ''user_text'') = None \<and>
   fst (parse_response (scenario_env no_failure) (Some bare_text)) \<noteq> PStr fallback_reply \<and>
   fst (snd (parse_response (scenario_env no_failure) (Some bare_text))) = jane ''showing'' \<and>
   truthy (jane ''showing'')"
proof -
  have h1: "json_loads (scenario_env no_failure) (strip_fence bare_text) = Inr (PDict bare_fields)"
    by (simp add: strip_fence_scenario scenario_texts_differ scenario_env_def scenario_json_def
        bare_data_def)
  have h2: "map_of bare_fields (lit ''user_text'') = None"
    by (simp add: bare_fields_def lit_def)
  have g: "dict_get bare_fields (lit ''appointmentinfo'') PNone = PDict (jane_fields ''showing'')"
    by (simp add: dict_get_def bare_fields_def jane_def)
  have f: "field_present (jane_fields ''showing'') (lit ''name'')"
      "field_present (jane_fields ''showing'') (lit ''type'')"
      "field_present (jane_fields ''showing'') (lit ''date'')"
      "field_present (jane_fields ''showing'') (lit ''time'')"
    by (simp_all add: field_present_def jane_fields_def lit_def)
  have d: "default_reply \<noteq> fallback_reply"
    by (simp add: default_reply_def fallback_reply_def lit_def)
  have t: "truthy (jane ''showing'')" by (simp add: jane_def jane_fields_def)
  have u: "dict_get bare_fields (lit ''user_text'') (PStr default_reply) = PStr default_reply"
    using h2 by (simp add: dict_get_def)
  have p: "parse_response (scenario_env no_failure) (Some bare_text) =
      (PStr default_reply, PDict (jane_fields ''showing''), [JsonLoads (strip_fence bare_text)])"
    using f by (simp add: parse_object [OF h1] g u validate_dict)
  show ?thesis
    using h1 h2 d t by (simp add: p jane_def)
qed

text \<open>
  Claim C6, amended. When the model's answer parses to an object without \<open>user_text\<close>,
  the reply is the default text "I'm here to help with your real estate needs!", not
  the fallback reply, and a complete \<open>appointmentinfo\<close> is kept as the intent.
\<close>

theorem missing_user_text_gets_default_reply:
  assumes "json_loads E (strip_fence t) = Inr (PDict d)"
      and "map_of d (lit ''user_text'') = None"
  shows "fst (parse_response E (Some t)) = PStr default_reply \<and>
         default_reply \<noteq> fallback_reply \<and>
         (map_of d (lit ''appointmentinfo'') = Some (PDict a) \<and>
          field_present a (lit ''name'') \<and> field_present a (lit ''type'') \<and>
          field_present a (lit ''date'') \<and> field_present a (lit ''time'') \<longrightarrow>
          fst (snd (parse_response E (Some t))) = PDict a)"
proof -
  have d: "default_reply \<noteq> fallback_reply"
    by (simp add: default_reply_def fallback_reply_def lit_def)
  from assms(2) have u: "dict_get d (lit ''user_text'') (PStr default_reply) = PStr default_reply"
    by (simp add: dict_get_def)
  have r: "fst (parse_response E (Some t)) = PStr default_reply"
    by (simp add: parse_object [OF assms(1)] u split: sum.splits prod.splits)
  have i: "fst (snd (parse_response E (Some t))) = PDict a"
    if "map_of d (lit ''appointmentinfo'') = Some (PDict a)"
      and "field_present a (lit ''name'') \<and> field_present a (lit ''type'') \<and>
           field_present a (lit ''date'') \<and> field_present a (lit ''time'')"
    using that by (simp add: parse_object [OF assms(1)] dict_get_def validate_dict)
  from d r i show ?thesis by blast
qed

theorem missing_user_text_gets_default_reply_witness:
  "json_loads (scenario_env no_failure) (strip_fence bare_text) = Inr (PDict bare_fields) \<and>
   map_of bare_fields (lit ''user_text'') = None \<and>
   fst (parse_response (scenario_env no_failure) (Some bare_text)) = PStr default_reply"
proof -
  have h1: "json_loads (scenario_env no_failure) (strip_fence bare_text) = Inr (PDict bare_fields)"
    by (simp add: strip_fence_scenario scenario_texts_differ scenario_env_def scenario_json_def
        bare_data_def)
  have h2: "map_of bare_fields (lit ''user_text'') = None"
    by (simp add: bare_fields_def lit_def)
  from missing_user_text_gets_default_reply [OF h1 h2] h1 h2 show ?thesis by simp
qed

section \<open>The conflict resolver\<close>

lemma check_conflict_eq:
  "check_conflict E dt w =
     (case minus_30min_time dt of
        Inl e \<Rightarrow> (w, Inl e)
      | Inr s \<Rightarrow>
          (case plus_30min_time dt of
             Inl e \<Rightarrow> (w, Inl e)
           | Inr e \<Rightarrow>
               (w\<lparr>events := events w @ [QueryAppointments (dt_date dt) s e]\<rparr>,
                case raises E (QueryAppointments (dt_date dt) s e) of
                  Some x \<Rightarrow> Inl x
                | None \<Rightarrow> Inr (find (\<lambda>a. a_date a = dt_date dt \<and> time_le s (a_time a) \<and>
                                         time_le (a_time a) e) (appointments w)))))"
  by (simp add: check_conflict_def call_def emit_def split: sum.splits option.splits)

lemma time_key_with_minutes:
  "time_key (with_minutes t k) = (k * 60 + second t) * 1000000 + microsecond t"
  by (simp add: time_key_def with_minutes_def)

lemma window_plain:
  assumes "30 \<le> hour (dt_time dt) * 60 + minute (dt_time dt)"
      and "hour (dt_time dt) * 60 + minute (dt_time dt) + 30 < 1440"
  shows "\<exists>s e. minus_30min_time dt = Inr s \<and> plus_30min_time dt = Inr e \<and>
           time_key s + minutes 30 = time_key (dt_time dt) \<and>
           time_key e = time_key (dt_time dt) + minutes 30"
  using assms
  by (simp add: minus_30min_time_def plus_30min_time_def Let_def time_key_with_minutes minutes_def)
     (simp add: time_key_def)

lemma window_crossing:
  assumes "(hour (dt_time dt) * 60 + minute (dt_time dt) < 30 \<and> dt_date dt \<noteq> min_date) \<or>
           (1410 \<le> hour (dt_time dt) * 60 + minute (dt_time dt) \<and> dt_date dt \<noteq> max_date)"
  shows "\<exists>s e. minus_30min_time dt = Inr s \<and> plus_30min_time dt = Inr e \<and>
           time_key e < time_key s"
  using assms
  by (auto simp add: minus_30min_time_def plus_30min_time_def Let_def time_key_with_minutes)

lemma find_is_Some: "(\<exists>c. find P xs = Some c) \<longleftrightarrow> (\<exists>x\<in>set xs. P x)"
  using find_None_iff [of P xs] by (cases "find P xs") auto


lemma find_none_bex: "(find P xs = None) = (\<not> (\<exists>x\<in>set xs. P x))"
  by (auto simp: find_None_iff)

lemma apart_le:
  "time_apart a b \<le> n \<longleftrightarrow> time_key b \<le> time_key a + n \<and> time_key a \<le> time_key b + n"
  by (auto simp: time_apart_def)

text \<open>
  Claim C3. For a candidate whose window stays inside its day (its time is 00:30 or
  later and before 23:30) and a query that does not raise, the resolver finds a
  conflicting row exactly when some stored appointment of the same date lies within 30
  minutes of the candidate's time, both ends included: a stored appointment exactly 30
  minutes away is a conflict, and when every stored appointment of that date is exactly
  31 minutes away there is none.
\<close>

theorem conflict_iff_within_30_minutes:
  assumes "30 \<le> hour (dt_time dt) * 60 + minute (dt_time dt)"
      and "hour (dt_time dt) * 60 + minute (dt_time dt) + 30 < 1440"
      and "\<forall>s e. raises E (QueryAppointments (dt_date dt) s e) = None"
  shows "((\<exists>c. snd (check_conflict E dt w) = Inr (Some c)) \<longleftrightarrow>
            (\<exists>a\<in>set (appointments w). a_date a = dt_date dt \<and>
               time_apart (a_time a) (dt_time dt) \<le> minutes 30)) \<and>
         (snd (check_conflict E dt w) = Inr None \<longleftrightarrow>
            \<not> (\<exists>a\<in>set (appointments w). a_date a = dt_date dt \<and>
               time_apart (a_time a) (dt_time dt) \<le> minutes 30)) \<and>
         ((\<exists>a\<in>set (appointments w). a_date a = dt_date dt \<and>
              time_apart (a_time a) (dt_time dt) = minutes 30) \<longrightarrow>
            (\<exists>c. snd (check_conflict E dt w) = Inr (Some c))) \<and>
         ((\<forall>a\<in>set (appointments w). a_date a = dt_date dt \<longrightarrow>
              time_apart (a_time a) (dt_time dt) = minutes 31) \<longrightarrow>
            snd (check_conflict E dt w) = Inr None)"
proof -
  from window_plain [OF assms(1,2)] obtain s e where
    s: "minus_30min_time dt = Inr s" and e: "plus_30min_time dt = Inr e" and
    ks: "time_key s + minutes 30 = time_key (dt_time dt)" and
    ke: "time_key e = time_key (dt_time dt) + minutes 30"
    by blast
  let ?P = "\<lambda>a. a_date a = dt_date dt \<and> time_le s (a_time a) \<and> time_le (a_time a) e"
  have res: "snd (check_conflict E dt w) = Inr (find ?P (appointments w))"
    using assms(3) by (simp add: check_conflict_eq s e)
  have P: "?P a \<longleftrightarrow> a_date a = dt_date dt \<and> time_apart (a_time a) (dt_time dt) \<le> minutes 30" for a
    using ks ke by (auto simp: time_le_def apart_le)
  have some: "(\<exists>c. find ?P (appointments w) = Some c) \<longleftrightarrow>
      (\<exists>a\<in>set (appointments w). a_date a = dt_date dt \<and> time_apart (a_time a) (dt_time dt) \<le> minutes 30)"
    by (simp only: find_is_Some P)
  have none: "find ?P (appointments w) = None \<longleftrightarrow>
      \<not> (\<exists>a\<in>set (appointments w). a_date a = dt_date dt \<and> time_apart (a_time a) (dt_time dt) \<le> minutes 30)"
    by (auto simp only: find_None_iff P)
  have m: "minutes 31 > minutes 30" by (simp add: minutes_def)
  show ?thesis
    unfolding res using some none m by auto
qed

theorem conflict_iff_within_30_minutes_witness:
  "30 \<le> hour (dt_time (at_time march_2nd 14 30)) * 60 + minute (dt_time (at_time march_2nd 14 30)) \<and>
   hour (dt_time (at_time march_2nd 14 31)) * 60 + minute (dt_time (at_time march_2nd 14 31)) + 30 < 1440 \<and>
   time_apart (a_time (jane_row ''showing'')) (dt_time (at_time march_2nd 14 30)) = minutes 30 \<and>
   snd (check_conflict (scenario_env no_failure) (at_time march_2nd 14 30)
          (world_with [jane_row ''showing''])) \<noteq> Inr None \<and>
   time_apart (a_time (jane_row ''showing'')) (dt_time (at_time march_2nd 14 31)) = minutes 31 \<and>
   snd (check_conflict (scenario_env no_failure) (at_time march_2nd 14 31)
          (world_with [jane_row ''showing''])) = Inr None"
proof -
  have a1: "30 \<le> hour (dt_time (at_time march_2nd 14 30)) * 60 + minute (dt_time (at_time march_2nd 14 30))"
    and a2: "hour (dt_time (at_time march_2nd 14 30)) * 60 + minute (dt_time (at_time march_2nd 14 30)) + 30 < 1440"
    and b1: "30 \<le> hour (dt_time (at_time march_2nd 14 31)) * 60 + minute (dt_time (at_time march_2nd 14 31))"
    and b2: "hour (dt_time (at_time march_2nd 14 31)) * 60 + minute (dt_time (at_time march_2nd 14 31)) + 30 < 1440"
    by (simp_all add: at_time_def)
  have q: "\<forall>s e. raises (scenario_env no_failure) (QueryAppointments (dt_date (at_time march_2nd h m)) s e) = None"
    for h m
    by (simp add: scenario_env_def no_failure_def)
  have d30: "time_apart (a_time (jane_row ''showing'')) (dt_time (at_time march_2nd 14 30)) = minutes 30"
    and d31: "time_apart (a_time (jane_row ''showing'')) (dt_time (at_time march_2nd 14 31)) = minutes 31"
    by (simp_all add: time_apart_def time_key_def minutes_def jane_row_def jane_at_def at_time_def)
  have rows: "appointments (world_with [jane_row ''showing'']) = [jane_row ''showing'']"
    by (simp add: world_with_def)
  have day: "a_date (jane_row ''showing'') = dt_date (at_time march_2nd h m)" for h m
    by (simp add: jane_row_def jane_at_def at_time_def)
  from conflict_iff_within_30_minutes [OF a1 a2 q, of "world_with [jane_row ''showing'']"]
  have c30: "snd (check_conflict (scenario_env no_failure) (at_time march_2nd 14 30)
      (world_with [jane_row ''showing''])) \<noteq> Inr None"
    using d30 day by (auto simp: rows)
  from conflict_iff_within_30_minutes [OF b1 b2 q, of "world_with [jane_row ''showing'']"]
  have c31: "snd (check_conflict (scenario_env no_failure) (at_time march_2nd 14 31)
      (world_with [jane_row ''showing''])) = Inr None"
    using d31 by (simp add: rows)
  from a1 b2 d30 d31 c30 c31 show ?thesis by blast
qed

text \<open>
  Claim C1, as the specification states it, fails: the query does not look at the kind
  of the stored rows. A stored cancellation at 14:00 is returned as the conflict of a
  candidate at 14:00 of the same day.
\<close>

theorem cancellation_record_counterexample:
  "a_type (jane_row ''cancellation'') = PStr (lit ''cancellation'') \<and>
   snd (check_conflict (scenario_env no_failure) (at_time march_2nd 14 0)
          (world_with [jane_row ''cancellation''])) = Inr (Some (jane_row ''cancellation''))"
  by (simp add: check_conflict_eq minus_30min_time_def plus_30min_time_def with_minutes_def
      time_le_def time_key_def jane_row_def jane_at_def at_time_def world_with_def
      scenario_env_def no_failure_def)

text \<open>
  Claim C1, amended. The resolver does not look at the kind of the stored rows: for
  every candidate its report is the same on any two stores whose rows have the same
  dates and times. In particular, for a candidate whose window stays inside its day, a
  stored row of kind cancellation on the candidate's date and within 30 minutes of its
  time (both ends included) makes the resolver report a conflict (when the query does
  not raise).
\<close>

theorem stored_kind_is_ignored:
  "(map slot (appointments w) = map slot (appointments w') \<longrightarrow>
      verdict (check_conflict E dt w) = verdict (check_conflict E dt w')) \<and>
   (30 \<le> hour (dt_time dt) * 60 + minute (dt_time dt) \<and>
    hour (dt_time dt) * 60 + minute (dt_time dt) + 30 < 1440 \<and>
    (\<forall>s e. raises E (QueryAppointments (dt_date dt) s e) = None) \<and>
    a \<in> set (appointments w) \<and> a_type a = PStr (lit ''cancellation'') \<and>
    a_date a = dt_date dt \<and> time_apart (a_time a) (dt_time dt) \<le> minutes 30 \<longrightarrow>
      verdict (check_conflict E dt w) = Inr True)"
proof -
  have same: "verdict (check_conflict E dt w) = verdict (check_conflict E dt w')"
    if m: "map slot (appointments w) = map slot (appointments w')"
  proof -
    have "(find (\<lambda>a. a_date a = dt_date dt \<and> time_le s (a_time a) \<and> time_le (a_time a) e)
             (appointments w) = None) =
          (find (\<lambda>a. a_date a = dt_date dt \<and> time_le s (a_time a) \<and> time_le (a_time a) e)
             (appointments w') = None)" for s e
    proof -
      define P where "P = (\<lambda>a::appointment. a_date a = dt_date dt \<and> time_le s (a_time a) \<and> time_le (a_time a) e)"
      define Q where "Q = (\<lambda>p. fst p = dt_date dt \<and> time_le s (snd p) \<and> time_le (snd p) e)"
      have PQ: "P x = Q (slot x)" for x by (simp add: P_def Q_def slot_def)
      from m have "set (map slot (appointments w)) = set (map slot (appointments w'))"
        by simp
      then have img: "slot ` set (appointments w) = slot ` set (appointments w')"
        by simp
      have eA: "(\<exists>x\<in>set (appointments w). P x) = (\<exists>p\<in>slot ` set (appointments w). Q p)"
        and eB: "(\<exists>x\<in>set (appointments w'). P x) = (\<exists>p\<in>slot ` set (appointments w'). Q p)"
        by (simp_all add: PQ)
      have "(\<exists>x\<in>set (appointments w). P x) = (\<exists>x\<in>set (appointments w'). P x)"
        by (simp only: eA eB img)
      then have "(find P (appointments w) = None) = (find P (appointments w') = None)"
        by (simp only: find_none_bex)
      then show ?thesis by (simp only: P_def)
    qed
    then have "(find (\<lambda>a. a_date a = dt_date dt \<and> time_le s (a_time a) \<and> time_le (a_time a) e)
             (appointments w) \<noteq> None) =
          (find (\<lambda>a. a_date a = dt_date dt \<and> time_le s (a_time a) \<and> time_le (a_time a) e)
             (appointments w') \<noteq> None)" for s e
      by simp
    then show ?thesis
      by (simp add: verdict_def check_conflict_eq split: sum.splits option.splits)
  qed
  have found: "verdict (check_conflict E dt w) = Inr True"
    if a1: "30 \<le> hour (dt_time dt) * 60 + minute (dt_time dt)"
      and a2: "hour (dt_time dt) * 60 + minute (dt_time dt) + 30 < 1440"
      and q: "\<forall>s e. raises E (QueryAppointments (dt_date dt) s e) = None"
      and a: "a \<in> set (appointments w)" "a_date a = dt_date dt"
        "time_apart (a_time a) (dt_time dt) \<le> minutes 30"
  proof -
    from window_plain [OF a1 a2] obtain s e where
      s: "minus_30min_time dt = Inr s" and e: "plus_30min_time dt = Inr e" and
      ks: "time_key s + minutes 30 = time_key (dt_time dt)" and
      ke: "time_key e = time_key (dt_time dt) + minutes 30"
      by blast
    from a(3) ks ke have "time_le s (a_time a) \<and> time_le (a_time a) e"
      by (auto simp: time_le_def apart_le)
    with a(1,2) have "\<exists>x\<in>set (appointments w).
        a_date x = dt_date dt \<and> time_le s (a_time x) \<and> time_le (a_time x) e"
      by blast
    then have "find (\<lambda>a. a_date a = dt_date dt \<and> time_le s (a_time a) \<and> time_le (a_time a) e)
        (appointments w) \<noteq> None"
      by (simp only: find_none_bex) simp
    with q show ?thesis by (simp add: verdict_def check_conflict_eq s e)
  qed
  from same found show ?thesis by blast
qed

theorem stored_kind_is_ignored_witness:
  "map slot (appointments (world_with [jane_row ''cancellation''])) =
     map slot (appointments (world_with [jane_row ''showing''])) \<and>
   verdict (check_conflict (scenario_env no_failure) (at_time march_2nd 14 0)
              (world_with [jane_row ''cancellation''])) =
     verdict (check_conflict (scenario_env no_failure) (at_time march_2nd 14 0)
                (world_with [jane_row ''showing''])) \<and>
   30 \<le> hour (dt_time (at_time march_2nd 14 0)) * 60 + minute (dt_time (at_time march_2nd 14 0)) \<and>
   hour (dt_time (at_time march_2nd 14 0)) * 60 + minute (dt_time (at_time march_2nd 14 0)) + 30
     < 1440 \<and>
   a_type (jane_row ''cancellation'') = PStr (lit ''cancellation'') \<and>
   a_date (jane_row ''cancellation'') = dt_date (at_time march_2nd 14 0) \<and>
   time_apart (a_time (jane_row ''cancellation'')) (dt_time (at_time march_2nd 14 0)) \<le> minutes 30 \<and>
   verdict (check_conflict (scenario_env no_failure) (at_time march_2nd 14 0)
              (world_with [jane_row ''cancellation''])) = Inr True"
proof -
  have m: "map slot (appointments (world_with [jane_row ''cancellation''])) =
      map slot (appointments (world_with [jane_row ''showing'']))"
    by (simp add: world_with_def slot_def jane_row_def jane_at_def)
  have h1: "30 \<le> hour (dt_time (at_time march_2nd 14 0)) * 60 +
      minute (dt_time (at_time march_2nd 14 0))"
    and h2: "hour (dt_time (at_time march_2nd 14 0)) * 60 +
      minute (dt_time (at_time march_2nd 14 0)) + 30 < 1440"
    by (simp_all add: at_time_def)
  have h3: "\<forall>s e. raises (scenario_env no_failure)
      (QueryAppointments (dt_date (at_time march_2nd 14 0)) s e) = None"
    by (simp add: scenario_env_def no_failure_def)
  have h4: "jane_row ''cancellation'' \<in> set (appointments (world_with [jane_row ''cancellation'']))"
    by (simp add: world_with_def)
  have h5: "a_type (jane_row ''cancellation'') = PStr (lit ''cancellation'')"
    and h6: "a_date (jane_row ''cancellation'') = dt_date (at_time march_2nd 14 0)"
    and h7: "time_apart (a_time (jane_row ''cancellation'')) (dt_time (at_time march_2nd 14 0))
      \<le> minutes 30"
    by (simp_all add: jane_row_def jane_at_def at_time_def time_apart_def time_key_def minutes_def)
  from stored_kind_is_ignored
    [of "world_with [jane_row ''cancellation'']" "world_with [jane_row ''showing'']"
      "scenario_env no_failure" "at_time march_2nd 14 0" "jane_row ''cancellation''"]
    m h1 h2 h3 h4 h5 h6 h7
  show ?thesis by blast
qed

text \<open>
  Claim C10, as the specification states it, fails on the first and the last day of the
  calendar: at 00:10 of 0001-01-01 the start of the window is not a date, the
  subtraction raises \<open>OverflowError\<close>, and the resolver reports nothing.
\<close>

theorem first_day_window_counterexample:
  "hour (dt_time (at_time min_date 0 10)) * 60 + minute (dt_time (at_time min_date 0 10)) < 30 \<and>
   snd (check_conflict (scenario_env no_failure) (at_time min_date 0 10) empty_world) =
     Inl OverflowError"
  by (simp add: check_conflict_eq minus_30min_time_def at_time_def)

text \<open>
  Claim C10, amended. For a candidate whose time is before 00:30 on a day that has a
  previous day, or at or after 23:30 on a day that has a next day, the two ends of the
  window are computed, the start is later than the end, no stored time lies between
  them, and the resolver reports no conflict whatever the stored appointments are
  (when the query does not raise).
\<close>

theorem midnight_window_matches_nothing:
  assumes "(hour (dt_time dt) * 60 + minute (dt_time dt) < 30 \<and> dt_date dt \<noteq> min_date) \<or>
           (1410 \<le> hour (dt_time dt) * 60 + minute (dt_time dt) \<and> dt_date dt \<noteq> max_date)"
      and "\<forall>s e. raises E (QueryAppointments (dt_date dt) s e) = None"
  shows "\<exists>s e. minus_30min_time dt = Inr s \<and> plus_30min_time dt = Inr e \<and>
           time_key e < time_key s \<and>
           (\<forall>a\<in>set (appointments w). \<not> (time_le s (a_time a) \<and> time_le (a_time a) e)) \<and>
           snd (check_conflict E dt w) = Inr None"
proof -
  from window_crossing [OF assms(1)] obtain s e where
    s: "minus_30min_time dt = Inr s" and e: "plus_30min_time dt = Inr e" and
    lt: "time_key e < time_key s"
    by blast
  have no: "\<not> (time_le s t \<and> time_le t e)" for t
    using lt by (auto simp: time_le_def)
  have "snd (check_conflict E dt w) = Inr None"
    using assms(2) no by (simp add: check_conflict_eq s e find_None_iff)
  with s e lt no show ?thesis by blast
qed

theorem midnight_window_matches_nothing_witness:
  "1410 \<le> hour (dt_time (at_time march_2nd 23 45)) * 60 + minute (dt_time (at_time march_2nd 23 45)) \<and>
   dt_date (at_time march_2nd 23 45) \<noteq> max_date \<and>
   a_date (jane_at ''showing'' 23 50) = dt_date (at_time march_2nd 23 45) \<and>
   snd (check_conflict (scenario_env no_failure) (at_time march_2nd 23 45)
          (world_with [jane_at ''showing'' 23 50])) = Inr None"
proof -
  have h1: "1410 \<le> hour (dt_time (at_time march_2nd 23 45)) * 60 + minute (dt_time (at_time march_2nd 23 45))"
    and h2: "dt_date (at_time march_2nd 23 45) \<noteq> max_date"
    and h3: "a_date (jane_at ''showing'' 23 50) = dt_date (at_time march_2nd 23 45)"
    by (simp_all add: at_time_def march_2nd_def max_date_def jane_at_def)
  from h1 h2 have h: "(hour (dt_time (at_time march_2nd 23 45)) * 60 +
        minute (dt_time (at_time march_2nd 23 45)) < 30 \<and>
        dt_date (at_time march_2nd 23 45) \<noteq> min_date) \<or>
      (1410 \<le> hour (dt_time (at_time march_2nd 23 45)) * 60 +
        minute (dt_time (at_time march_2nd 23 45)) \<and>
        dt_date (at_time march_2nd 23 45) \<noteq> max_date)"
    by blast
  have q: "\<forall>s e. raises (scenario_env no_failure)
      (QueryAppointments (dt_date (at_time march_2nd 23 45)) s e) = None"
    by (simp add: scenario_env_def no_failure_def)
  from midnight_window_matches_nothing [OF h q, of "world_with [jane_at ''showing'' 23 50]"]
  have "snd (check_conflict (scenario_env no_failure) (at_time march_2nd 23 45)
      (world_with [jane_at ''showing'' 23 50])) = Inr None"
    by blast
  with h1 h2 h3 show ?thesis by blast
qed

section \<open>The appointment sub-flow\<close>

lemma save_appointment_eq:
  "save_appointment E a w =
     (case raises E (AddCommit (ApptRow a)) of
        Some e \<Rightarrow> (w\<lparr>events := events w @ [AddCommit (ApptRow a)]\<rparr>, Some e)
      | None \<Rightarrow> (w\<lparr>events := events w @ [AddCommit (ApptRow a)],
                     appointments := appointments w @ [a]\<rparr>, None))"
  by (simp add: save_appointment_def call_def emit_def split: option.splits)

lemma sync_eq:
  "sync_appt_to_sheet E w =
     (case raises E SyncQueryAll of
        Some e \<Rightarrow> (w\<lparr>events := events w @ [SyncQueryAll]\<rparr>, Some e)
      | None \<Rightarrow>
         (case raises E SheetsGet of
            Some e \<Rightarrow> (w\<lparr>events := events w @ [SyncQueryAll, SheetsGet]\<rparr>, Some e)
          | None \<Rightarrow>
              (w\<lparr>events := events w @ [SyncQueryAll, SheetsGet,
                    SheetsUpdate (sheet_body (sheet_values E) (appointments w))]\<rparr>,
               raises E (SheetsUpdate (sheet_body (sheet_values E) (appointments w))))))"
  by (simp add: sync_appt_to_sheet_def call_def emit_def split: option.splits)

lemmas flow_eqs =
  and_then_pair save_appointment_eq sync_eq check_conflict_eq call_def emit_def new_events_def


lemma booking_sync_failed:
  "booking_flow E n info dv tv dt w = (w', r) \<Longrightarrow>
   e \<in> set (new_events w w') \<Longrightarrow> is_sync_event e \<Longrightarrow> raises E e = Some x \<Longrightarrow>
   r = Some x \<and> (\<forall>e\<in>set (new_events w w'). \<not> is_send e) \<and>
   (\<exists>a. appointments w' = appointments w @ [a] \<and> AddCommit (ApptRow a) \<in> set (new_events w w'))"
  by (auto simp: booking_flow_def flow_eqs split: sum.splits option.splits prod.splits)

lemma booking_grows:
  "booking_flow E n info dv tv dt w = (w', r) \<Longrightarrow>
   conversations w' = conversations w \<and> (\<exists>post. events w' = events w @ post)"
  by (auto simp: booking_flow_def flow_eqs split: sum.splits option.splits prod.splits)


lemma cancel_no_sync:
  "cancel_flow E n info dv tv dt w = (w', r) \<Longrightarrow>
   e \<in> set (new_events w w') \<Longrightarrow> \<not> is_sync_event e"
  by (auto simp: cancel_flow_def flow_eqs split: sum.splits option.splits prod.splits)

lemma cancel_grows:
  "cancel_flow E n info dv tv dt w = (w', r) \<Longrightarrow>
   conversations w' = conversations w \<and> (\<exists>post. events w' = events w @ post)"
  by (auto simp: cancel_flow_def flow_eqs split: sum.splits option.splits prod.splits)

lemma try_cases:
  assumes "try_appointment E n info w = (w', r)"
  shows "(w' = w \<and> r \<noteq> None) \<or>
         (\<exists>s. w' = emit (Strptime s) w \<and> r \<noteq> None) \<or>
         (\<exists>s dv tv dt. cancel_flow E n info dv tv dt (emit (Strptime s) w) = (w', r)) \<or>
         (\<exists>s dv tv dt. booking_flow E n info dv tv dt (emit (Strptime s) w) = (w', r))"
  using assms
  by (auto simp: try_appointment_def Let_def split: sum.splits if_splits)

lemma new_events_emit:
  "events w' = events (emit e w) @ post \<Longrightarrow> new_events w w' = e # new_events (emit e w) w'"
  by (simp add: new_events_def emit_def)

lemma new_events_same: "new_events w w = []"
  by (simp add: new_events_def)

lemma new_events_emit_self: "new_events w (emit e w) = [e]"
  by (simp add: new_events_def emit_def)

lemma new_events_append: "events w' = events w @ post \<Longrightarrow> new_events w w' = post"
  by (simp add: new_events_def)

lemma try_grows:
  assumes "try_appointment E n info w = (w', r)"
  shows "conversations w' = conversations w \<and> (\<exists>post. events w' = events w @ post)"
  using try_cases [OF assms]
  by (auto simp: emit_def dest!: cancel_grows booking_grows)


lemma try_sync_failed:
  assumes "try_appointment E n info w = (w', r)"
      and "e \<in> set (new_events w w')" and "is_sync_event e" and "raises E e = Some x"
  shows "r = Some x \<and> (\<forall>e\<in>set (new_events w w'). \<not> is_send e) \<and>
         (\<exists>a. appointments w' = appointments w @ [a] \<and> AddCommit (ApptRow a) \<in> set (new_events w w'))"
proof -
  consider (a) "w' = w" | (b) s where "w' = emit (Strptime s) w"
    | (c) s dv tv dt where "cancel_flow E n info dv tv dt (emit (Strptime s) w) = (w', r)"
    | (d) s dv tv dt where "booking_flow E n info dv tv dt (emit (Strptime s) w) = (w', r)"
    using try_cases [OF assms(1)] by blast
  then show ?thesis
  proof cases
    case a
    with assms(2) show ?thesis by (simp add: new_events_same)
  next
    case b
    with assms(2,3) show ?thesis by (auto simp add: new_events_emit_self)
  next
    case c
    from cancel_grows [OF c] obtain post where "events w' = events (emit (Strptime s) w) @ post"
      by blast
    then have ne: "new_events w w' = Strptime s # new_events (emit (Strptime s) w) w'"
      by (rule new_events_emit)
    with assms(2,3) have "e \<in> set (new_events (emit (Strptime s) w) w')"
      by auto
    from cancel_no_sync [OF c this] assms(3) show ?thesis by simp
  next
    case d
    from booking_grows [OF d] obtain post where "events w' = events (emit (Strptime s) w) @ post"
      by blast
    then have ne: "new_events w w' = Strptime s # new_events (emit (Strptime s) w) w'"
      by (rule new_events_emit)
    with assms(2,3) have "e \<in> set (new_events (emit (Strptime s) w) w')"
      by auto
    from booking_sync_failed [OF d this assms(3,4)] ne show ?thesis
      by (simp add: emit_def)
  qed
qed

lemma process_eq:
  "try_appointment E n info w = (w1, r) \<Longrightarrow>
   process_appointment E n info w =
     (case r of None \<Rightarrow> (w1, None) | Some e \<Rightarrow> handle_appointment_error E e w1)"
  by (simp add: process_appointment_def split: option.splits)

lemma handle_summary:
  assumes "handle_appointment_error E e w = (w', r)"
  shows "appointments w' = appointments w \<and> conversations w' = conversations w \<and>
   (\<exists>post. events w' = events w @ post \<and>
      (\<forall>e\<in>set post. \<not> is_send e \<and> \<not> is_appointment_event e \<and> \<not> is_sync_event e) \<and>
      (e = SQLAlchemyError \<longrightarrow> Rollback \<in> set post \<and> r = raises E Rollback) \<and>
      (e \<noteq> SQLAlchemyError \<longrightarrow> r = None))"
  using assms
  by (auto simp: handle_appointment_error_def emit_def call_def and_then_pair
      split: if_splits option.splits)

text \<open>
  What step 7 adds to the trace: the events of the \<open>try\<close> block, then those of the
  handler if the block raised. Only the rollback of the handler can make it raise.
\<close>

lemma process_split:
  obtains w1 r p1 w2 r2 p2 where
    "try_appointment E n info w = (w1, r)" and "events w1 = events w @ p1" and
    "new_events w w1 = p1" and
    "process_appointment E n info w = (w2, r2)" and
    "new_events w w2 = p1 @ p2" and
    "events w2 = events w @ p1 @ p2" and
    "appointments w2 = appointments w1" and
    "\<forall>e\<in>set p2. \<not> is_send e \<and> \<not> is_appointment_event e \<and> \<not> is_sync_event e" and
    "r = Some SQLAlchemyError \<longrightarrow> Rollback \<in> set p2 \<and> r2 = raises E Rollback" and
    "r \<noteq> Some SQLAlchemyError \<longrightarrow> r2 = None"
proof -
  obtain w1 r where t: "try_appointment E n info w = (w1, r)" by force
  from try_grows [OF t] obtain p1 where p1: "events w1 = events w @ p1" by blast
  show thesis
  proof (cases r)
    case None
    with t have "process_appointment E n info w = (w1, None)" by (simp add: process_eq)
    with t p1 None show thesis
      by (intro that [of w1 r p1 w1 None "[]"]) (simp_all add: new_events_def)
  next
    case (Some e)
    obtain w2 r2 where h: "handle_appointment_error E e w1 = (w2, r2)" by force
    with t Some have pe: "process_appointment E n info w = (w2, r2)"
      by (simp add: process_eq)
    from handle_summary [OF h] obtain p2 where
      "events w2 = events w1 @ p2" and
      "\<forall>e\<in>set p2. \<not> is_send e \<and> \<not> is_appointment_event e \<and> \<not> is_sync_event e" and
      "e = SQLAlchemyError \<longrightarrow> Rollback \<in> set p2 \<and> r2 = raises E Rollback" and
      "e \<noteq> SQLAlchemyError \<longrightarrow> r2 = None" and
      "appointments w2 = appointments w1"
      by blast
    with t p1 Some pe show thesis
      by (intro that [of w1 r p1 w2 r2 p2]) (simp_all add: new_events_def)
  qed
qed

section \<open>The request as a whole\<close>

lemma sync_is_appointment_event: "is_sync_event e \<Longrightarrow> is_appointment_event e"
  by (cases e) simp_all

lemma answer_failed_send:
  assumes "answer E Body From w = (w5, Inl x)"
  shows "\<exists>pre. events w5 = events w @ pre \<and>
           ((\<forall>e\<in>set pre. \<not> is_send e) \<or>
            (\<exists>pre' text sent. pre = pre' @ [SendMessage (remove_all (lit ''whatsapp:'') From) sent] \<and>
               (\<forall>e\<in>set pre'. \<not> is_appointment_event e \<and> \<not> is_send e) \<and>
               generate_content E Body (context_text w (remove_all (lit ''whatsapp:'') From)) = Inr text \<and>
               truncate_reply (fst (parse_response E text)) = Inr sent))"
  using assms
  apply (simp add: answer_def Let_def call_def context_text_emit store_conversation_def
      and_then_pair split: option.splits sum.splits prod.splits if_splits)
  apply (auto simp: emit_def dest!: parse_response_events)
  done


text \<open>
  Claim C8. In every request that reaches the sending of the chat reply, the trace of
  the request has, before that call, no call of the appointment (no date parsing, no
  conflict query, no write of an appointment, no mirror call) and no other message; the
  message is the model's reply after truncation, sent to the sender. Everything the
  appointment does, also when it fails, comes after it.
\<close>

theorem chat_reply_precedes_appointment:
  assumes "SendMessage n m \<in> set (new_events w (fst (reply E Body From w)))"
  shows "\<exists>pre post sent text.
           new_events w (fst (reply E Body From w)) =
             pre @ SendMessage (remove_all (lit ''whatsapp:'') From) sent # post \<and>
           (\<forall>e\<in>set pre. \<not> is_appointment_event e \<and> \<not> is_send e) \<and>
           generate_content E Body (context_text w (remove_all (lit ''whatsapp:'') From)) = Inr text \<and>
           truncate_reply (fst (parse_response E text)) = Inr sent"
proof -
  obtain w5 res where a: "answer E Body From w = (w5, res)" by force
  show ?thesis
  proof (cases res)
    case (Inl x)
    with a have r: "fst (reply E Body From w) = w5" by (simp add: reply_def)
    from answer_failed_send [OF a [unfolded Inl]] obtain pre where
      pre: "events w5 = events w @ pre" and
      alt: "(\<forall>e\<in>set pre. \<not> is_send e) \<or>
            (\<exists>pre' text sent. pre = pre' @ [SendMessage (remove_all (lit ''whatsapp:'') From) sent] \<and>
               (\<forall>e\<in>set pre'. \<not> is_appointment_event e \<and> \<not> is_send e) \<and>
               generate_content E Body (context_text w (remove_all (lit ''whatsapp:'') From)) = Inr text \<and>
               truncate_reply (fst (parse_response E text)) = Inr sent)"
      by blast
    from pre r have ne: "new_events w (fst (reply E Body From w)) = pre"
      by (simp add: new_events_def)
    have "is_send (SendMessage n m)" by simp
    with assms ne have "\<not> (\<forall>e\<in>set pre. \<not> is_send e)" by metis
    with alt ne show ?thesis by auto
  next
    case (Inr triple)
    obtain k sent info where triple: "triple = (k, sent, info)" by (cases triple) auto
    from answer_ok [OF a [unfolded Inr triple]] obtain raw pre where
      k: "k = remove_all (lit ''whatsapp:'') From" and
      g: "generate_content E Body (context_text w k) = Inr raw" and
      t: "truncate_reply (fst (parse_response E raw)) = Inr sent" and
      ev: "events w5 = events w @ pre @ [SendMessage k sent]" and
      pre: "\<forall>e\<in>set pre. \<not> is_appointment_event e \<and> \<not> is_send e"
      by blast
    have "\<exists>post. events (fst (reply E Body From w)) = events w5 @ post"
    proof (cases "truthy info")
      case True
      obtain w1 r p1 w2 r2 p2 where "process_appointment E k info w5 = (w2, r2)"
        and "events w2 = events w5 @ p1 @ p2"
        by (rule process_split)
      with a Inr triple True show ?thesis by (simp add: reply_def)
    next
      case False
      with a Inr triple show ?thesis by (simp add: reply_def)
    qed
    then obtain post where "events (fst (reply E Body From w)) = events w5 @ post" by blast
    with ev have "new_events w (fst (reply E Body From w)) = pre @ SendMessage k sent # post"
      by (simp add: new_events_def)
    with k g t pre show ?thesis by blast
  qed
qed


text \<open>
  Claim C9, amended. When a call of the spreadsheet mirror raises, the booking stays
  stored (it was committed before) and no confirmation is sent: the chat reply is the
  only message of the request. The request returns normally; only when the mirror raised
  a storage error does the handler call \<open>db.rollback()\<close>, and then the request ends as
  the rollback does.
\<close>

theorem mirror_failure_suppresses_confirmation:
  assumes "e \<in> set (new_events w (fst (reply E Body From w)))"
      and "is_sync_event e" and "raises E e = Some x"
  shows "(\<exists>a. appointments (fst (reply E Body From w)) = appointments w @ [a] \<and>
              AddCommit (ApptRow a) \<in> set (new_events w (fst (reply E Body From w)))) \<and>
         length (filter is_send (new_events w (fst (reply E Body From w)))) = 1 \<and>
         snd (reply E Body From w) = (if x = SQLAlchemyError then raises E Rollback else None)"
proof -
  obtain w5 res where a: "answer E Body From w = (w5, res)" by force
  show ?thesis
  proof (cases res)
    case (Inl y)
    with a have r: "reply E Body From w = (w5, Some y)" by (simp add: reply_def)
    from answer_failed [OF a [unfolded Inl]] obtain pre where
      "events w5 = events w @ pre" and "\<forall>e\<in>set pre. \<not> is_appointment_event e"
      by blast
    with r assms(1,2) show ?thesis
      by (auto simp: new_events_def dest: sync_is_appointment_event)
  next
    case (Inr triple)
    obtain k sent info where triple: "triple = (k, sent, info)" by (cases triple) auto
    from answer_ok [OF a [unfolded Inr triple]] obtain pre where
      ap: "appointments w5 = appointments w" and
      ev: "events w5 = events w @ pre @ [SendMessage k sent]" and
      pre: "\<forall>e\<in>set pre. \<not> is_appointment_event e \<and> \<not> is_send e"
      by blast
    show ?thesis
    proof (cases "truthy info")
      case False
      with a Inr triple have r: "reply E Body From w = (w5, None)" by (simp add: reply_def)
      with ev pre assms(1,2) show ?thesis
        by (auto simp: new_events_def dest: sync_is_appointment_event)
    next
      case True
      obtain w1 r1 p1 w2 r2 p2 where
        t: "try_appointment E k info w5 = (w1, r1)" and
        n1: "new_events w5 w1 = p1" and
        pr: "process_appointment E k info w5 = (w2, r2)" and
        pe: "events w2 = events w5 @ p1 @ p2" and
        pa: "appointments w2 = appointments w1" and
        p2: "\<forall>e\<in>set p2. \<not> is_send e \<and> \<not> is_appointment_event e \<and> \<not> is_sync_event e" and
        rb: "r1 = Some SQLAlchemyError \<longrightarrow> Rollback \<in> set p2 \<and> r2 = raises E Rollback" and
        ok: "r1 \<noteq> Some SQLAlchemyError \<longrightarrow> r2 = None"
        by (rule process_split)
      from True a Inr triple pr have r: "reply E Body From w = (w2, r2)"
        by (simp add: reply_def)
      from ev pe r have ne: "new_events w (fst (reply E Body From w)) =
          pre @ SendMessage k sent # p1 @ p2"
        by (simp add: new_events_def)
      from assms(1,2) ne pre p2 have "e \<in> set p1"
        by (auto dest: sync_is_appointment_event)
      with n1 have "e \<in> set (new_events w5 w1)" by simp
      from try_sync_failed [OF t this assms(2,3)] n1
      obtain b where r1: "r1 = Some x" and "\<forall>e\<in>set p1. \<not> is_send e"
        and "appointments w1 = appointments w5 @ [b]"
        and "AddCommit (ApptRow b) \<in> set p1"
        by auto
      moreover from r1 rb ok
      have "r2 = (if x = SQLAlchemyError then raises E Rollback else None)"
        by auto
      ultimately show ?thesis using ne r pa ap pre p2 by auto
    qed
  qed
qed

lemma msg_contains:
  "sublist (fmt E name_v) (cancellation_msg E name_v date_v time_v)"
  "sublist (fmt E date_v) (cancellation_msg E name_v date_v time_v)"
  "sublist (fmt E time_v) (cancellation_msg E name_v date_v time_v)"
proof -
  have "cancellation_msg E name_v date_v time_v =
      ([10003] @ lit '' Cancellation noted. '') @ fmt E name_v @
      ([39] @ lit ''s appointment on '' @ fmt E date_v @ lit '' at '' @ fmt E time_v @
       lit '' has been cancelled.'')"
    by (simp add: cancellation_msg_def)
  then show "sublist (fmt E name_v) (cancellation_msg E name_v date_v time_v)"
    unfolding sublist_def by blast
  have "cancellation_msg E name_v date_v time_v =
      ([10003] @ lit '' Cancellation noted. '' @ fmt E name_v @ [39] @ lit ''s appointment on '') @
      fmt E date_v @ (lit '' at '' @ fmt E time_v @ lit '' has been cancelled.'')"
    by (simp add: cancellation_msg_def)
  then show "sublist (fmt E date_v) (cancellation_msg E name_v date_v time_v)"
    unfolding sublist_def by blast
  have "cancellation_msg E name_v date_v time_v =
      ([10003] @ lit '' Cancellation noted. '' @ fmt E name_v @ [39] @ lit ''s appointment on '' @
       fmt E date_v @ lit '' at '') @ fmt E time_v @ lit '' has been cancelled.''"
    by (simp add: cancellation_msg_def)
  then show "sublist (fmt E time_v) (cancellation_msg E name_v date_v time_v)"
    unfolding sublist_def by blast
qed

text \<open>
  Claim C4. For an intent of kind cancellation whose date and time parse, and a write
  that does not raise: whatever appointments are stored, the appointment is appended
  to the table, the first calls of the sub-flow are the date parsing, the write, the
  log line and the sending of the cancellation message, no conflict query is made, and
  the message contains the name, the date and the time.
\<close>

theorem cancellation_skips_conflict_check:
  assumes "map_of a (lit ''name'') = Some name_v"
      and "map_of a (lit ''type'') = Some (PStr (lit ''cancellation''))"
      and "map_of a (lit ''date'') = Some date_v"
      and "map_of a (lit ''time'') = Some time_v"
      and "strptime E (fmt E date_v @ [32] @ fmt E time_v) = Inr appt_dt"
      and "raises E (AddCommit (ApptRow
             \<lparr>a_phone = n, a_name = name_v, a_type = PStr (lit ''cancellation''),
              a_date = dt_date appt_dt, a_time = dt_time appt_dt\<rparr>)) = None"
  shows "appointments (fst (process_appointment E n (PDict a) w)) =
           appointments w @
           [\<lparr>a_phone = n, a_name = name_v, a_type = PStr (lit ''cancellation''),
             a_date = dt_date appt_dt, a_time = dt_time appt_dt\<rparr>] \<and>
         take 4 (new_events w (fst (process_appointment E n (PDict a) w))) =
           [Strptime (fmt E date_v @ [32] @ fmt E time_v),
            AddCommit (ApptRow
              \<lparr>a_phone = n, a_name = name_v, a_type = PStr (lit ''cancellation''),
               a_date = dt_date appt_dt, a_time = dt_time appt_dt\<rparr>),
            Log Info ''Cancellation saved'',
            SendMessage n (PStr (cancellation_msg E name_v date_v time_v))] \<and>
         (\<forall>e\<in>set (new_events w (fst (process_appointment E n (PDict a) w))).
            \<forall>d s t. e \<noteq> QueryAppointments d s t) \<and>
         sublist (fmt E name_v) (cancellation_msg E name_v date_v time_v) \<and>
         sublist (fmt E date_v) (cancellation_msg E name_v date_v time_v) \<and>
         sublist (fmt E time_v) (cancellation_msg E name_v date_v time_v)"
  using assms
  by (auto simp: msg_contains process_appointment_def try_appointment_def subscript_def
      cancel_flow_def make_appointment_def handle_appointment_error_def flow_eqs Let_def
      split: option.splits if_splits)

section \<open>The scenarios, run\<close>

lemma scenario_env_sel:
  "generate_content (scenario_env f) = echo" "json_loads (scenario_env f) = scenario_json"
  "strptime (scenario_env f) = scenario_strptime" "to_str (scenario_env f) = placeholder"
  "sheet_values (scenario_env f) = []" "raises (scenario_env f) = f"
  by (simp_all add: scenario_env_def)

lemma scenario_number: "remove_all (lit ''whatsapp:'') sender = lit ''+15550100''"
  by (simp add: sender_def lit_def)

lemma jane_present:
  "field_present (jane_fields kind) (lit ''name'')" "field_present (jane_fields kind) (lit ''date'')"
  "field_present (jane_fields kind) (lit ''time'')"
  by (simp_all add: field_present_def jane_fields_def lit_def)

lemma scenario_parse:
  "parse_response (scenario_env f) (Some booking_text) =
     (PStr (lit ''Checking...''), jane ''showing'', [JsonLoads booking_text])"
  "parse_response (scenario_env f) (Some cancel_text) =
     (PStr (lit ''Checking...''), jane ''cancellation'', [JsonLoads cancel_text])"
proof -
  have g: "dict_get (reply_fields i) (lit ''user_text'') d = PStr (lit ''Checking...'')"
    "dict_get (reply_fields i) (lit ''appointmentinfo'') d = i" for i d
    by (simp_all add: dict_get_def reply_fields_def lit_def)
  have t: "field_present (jane_fields ''showing'') (lit ''type'')"
    "field_present (jane_fields ''cancellation'') (lit ''type'')"
    by (simp_all add: field_present_def jane_fields_def lit_def)
  have b: "json_loads (scenario_env f) (strip_fence booking_text) =
      Inr (PDict (reply_fields (jane ''showing'')))"
    by (simp add: strip_fence_scenario scenario_env_sel scenario_json_def with_reply_def)
  have c: "json_loads (scenario_env f) (strip_fence cancel_text) =
      Inr (PDict (reply_fields (jane ''cancellation'')))"
    by (simp add: strip_fence_scenario scenario_texts_differ scenario_env_sel scenario_json_def
        with_reply_def)
  show "parse_response (scenario_env f) (Some booking_text) =
     (PStr (lit ''Checking...''), jane ''showing'', [JsonLoads booking_text])"
    using t jane_present [of "''showing''"]
    by (simp add: parse_object [OF b] g jane_def validate_dict strip_fence_scenario)
  show "parse_response (scenario_env f) (Some cancel_text) =
     (PStr (lit ''Checking...''), jane ''cancellation'', [JsonLoads cancel_text])"
    using t jane_present [of "''cancellation''"]
    by (simp add: parse_object [OF c] g jane_def validate_dict strip_fence_scenario)
qed

lemma scenario_answer:
  assumes "f (QueryConversations (lit ''+15550100'')) = None"
      and "\<forall>c. f (AddCommit (ConvRow c)) = None"
      and "\<forall>m. f (SendMessage (lit ''+15550100'') m) = None"
      and "parse_response (scenario_env f) (Some t) = (PStr (lit ''Checking...''), info, [JsonLoads t])"
  shows "answer (scenario_env f) t sender (world_with rows) =
           (answered t rows, Inr (lit ''+15550100'', PStr (lit ''Checking...''), info))"
proof -
  have l: "\<not> 1600 < length (lit ''Checking...'')" by (simp add: lit_def)
  show ?thesis
    using assms l
    by (simp add: answer_def scenario_number Let_def call_def emit_def context_text_def
        world_with_def scenario_env_sel echo_def store_conversation_def truncate_reply_def
        answered_def)
qed

lemma scenario_try:
  "try_appointment (scenario_env f) n (jane ''showing'') w =
     booking_flow (scenario_env f) n (jane ''showing'') (PStr (lit ''2026-03-02''))
       (PStr (lit ''14:00'')) (at_time march_2nd 14 0) (emit (Strptime (lit ''2026-03-02 14:00'')) w)"
  "try_appointment (scenario_env f) n (jane ''cancellation'') w =
     cancel_flow (scenario_env f) n (jane ''cancellation'') (PStr (lit ''2026-03-02''))
       (PStr (lit ''14:00'')) (at_time march_2nd 14 0) (emit (Strptime (lit ''2026-03-02 14:00'')) w)"
  by (simp_all add: try_appointment_def subscript_def jane_def jane_fields_def fmt_def
      scenario_env_sel scenario_strptime_def lit_def Let_def)

lemma scenario_row:
  "make_appointment (lit ''+15550100'') (jane kind) (at_time march_2nd 14 0) = Inr (jane_row kind)"
  by (simp add: make_appointment_def subscript_def jane_def jane_fields_def jane_row_def
      jane_at_def at_time_def lit_def)

lemma scenario_window:
  "minus_30min_time (at_time march_2nd 14 0) =
     Inr \<lparr>hour = 13, minute = 30, second = 0, microsecond = 0\<rparr>"
  "plus_30min_time (at_time march_2nd 14 0) =
     Inr \<lparr>hour = 14, minute = 30, second = 0, microsecond = 0\<rparr>"
  by (simp_all add: minus_30min_time_def plus_30min_time_def with_minutes_def at_time_def)

lemma at_time_date: "dt_date (at_time d h m) = d"
  by (simp add: at_time_def)

lemma scenario_booking_sheets_down:
  "process_appointment (scenario_env sheets_down) (lit ''+15550100'') (jane ''showing'')
     (answered t []) =
   ((answered t [])
     \<lparr>appointments := [jane_row ''showing''],
      events := events (answered t []) @
        [Strptime (lit ''2026-03-02 14:00''),
         QueryAppointments march_2nd \<lparr>hour = 13, minute = 30, second = 0, microsecond = 0\<rparr>
           \<lparr>hour = 14, minute = 30, second = 0, microsecond = 0\<rparr>,
         AddCommit (ApptRow (jane_row ''showing'')), Log Info ''Appointment saved'',
         SyncQueryAll, SheetsGet, Log Error ''Unexpected error saving appointment'']\<rparr>, None)"
  by (simp add: process_appointment_def scenario_try booking_flow_def flow_eqs scenario_window
      scenario_row scenario_env_sel sheets_down_def only_def handle_appointment_error_def
      answered_def at_time_date)


lemma scenario_booking_no_failure:
  "process_appointment (scenario_env no_failure) (lit ''+15550100'') (jane ''showing'')
     (answered t []) =
   ((answered t [])
     \<lparr>appointments := [jane_row ''showing''],
      events := events (answered t []) @
        [Strptime (lit ''2026-03-02 14:00''),
         QueryAppointments march_2nd \<lparr>hour = 13, minute = 30, second = 0, microsecond = 0\<rparr>
           \<lparr>hour = 14, minute = 30, second = 0, microsecond = 0\<rparr>,
         AddCommit (ApptRow (jane_row ''showing'')), Log Info ''Appointment saved'',
         SyncQueryAll, SheetsGet,
         SheetsUpdate (sheet_body [] [jane_row ''showing'']),
         SendMessage (lit ''+15550100'')
           (PStr (confirmation_msg (scenario_env no_failure) (a_name (jane_row ''showing''))
                    (a_type (jane_row ''showing'')) (PStr (lit ''2026-03-02''))
                    (PStr (lit ''14:00''))))]\<rparr>, None)"
  by (simp add: process_appointment_def scenario_try booking_flow_def flow_eqs scenario_window
      scenario_row scenario_env_sel no_failure_def handle_appointment_error_def
      answered_def at_time_date)

lemma scenario_reply:
  assumes "f (QueryConversations (lit ''+15550100'')) = None"
      and "\<forall>c. f (AddCommit (ConvRow c)) = None"
      and "\<forall>m. f (SendMessage (lit ''+15550100'') m) = None"
  shows "reply (scenario_env f) booking_text sender empty_world =
           process_appointment (scenario_env f) (lit ''+15550100'') (jane ''showing'')
             (answered booking_text [])"
proof -
  have e: "empty_world = world_with []" by (simp add: empty_world_def world_with_def)
  have t: "truthy (jane ''showing'')" by (simp add: jane_def jane_fields_def)
  show ?thesis
    using t by (simp add: reply_def e scenario_answer [OF assms scenario_parse(1)])
qed

lemma answered_events:
  "new_events empty_world (w\<lparr>events := events (answered t rows) @ post\<rparr>) =
     events (answered t rows) @ post"
  "new_events empty_world (w\<lparr>appointments := a, events := events (answered t rows) @ post\<rparr>) =
     events (answered t rows) @ post"
  by (simp_all add: new_events_def empty_world_def)

lemma answered_sends:
  "filter is_send (events (answered t rows)) =
     [SendMessage (lit ''+15550100'') (PStr (lit ''Checking...''))]"
  by (simp add: answered_def)

theorem chat_reply_precedes_appointment_witness:
  "SendMessage (lit ''+15550100'') (PStr (lit ''Checking...'')) \<in>
     set (new_events empty_world
            (fst (reply (scenario_env sheets_down) booking_text sender empty_world))) \<and>
   (\<exists>pre post sent.
      new_events empty_world
        (fst (reply (scenario_env sheets_down) booking_text sender empty_world)) =
      pre @ SendMessage (remove_all (lit ''whatsapp:'') sender) sent # post)"
proof -
  have r: "reply (scenario_env sheets_down) booking_text sender empty_world =
      process_appointment (scenario_env sheets_down) (lit ''+15550100'') (jane ''showing'')
        (answered booking_text [])"
    by (rule scenario_reply) (simp_all add: sheets_down_def only_def)
  have h: "SendMessage (lit ''+15550100'') (PStr (lit ''Checking...'')) \<in>
     set (new_events empty_world
            (fst (reply (scenario_env sheets_down) booking_text sender empty_world)))"
    by (simp add: r scenario_booking_sheets_down answered_events) (simp add: answered_def)
  from chat_reply_precedes_appointment [OF h] h show ?thesis by blast
qed


theorem mirror_failure_suppresses_confirmation_witness:
  "SheetsGet \<in>
     set (new_events empty_world
            (fst (reply (scenario_env sheets_down) booking_text sender empty_world))) \<and>
   is_sync_event SheetsGet \<and>
   raises (scenario_env sheets_down) SheetsGet = Some OtherException \<and>
   length (filter is_send
     (new_events empty_world
        (fst (reply (scenario_env sheets_down) booking_text sender empty_world)))) = 1 \<and>
   snd (reply (scenario_env sheets_down) booking_text sender empty_world) = None"
proof -
  have r: "reply (scenario_env sheets_down) booking_text sender empty_world =
      process_appointment (scenario_env sheets_down) (lit ''+15550100'') (jane ''showing'')
        (answered booking_text [])"
    by (rule scenario_reply) (simp_all add: sheets_down_def only_def)
  have h1: "SheetsGet \<in>
     set (new_events empty_world
            (fst (reply (scenario_env sheets_down) booking_text sender empty_world)))"
    by (simp add: r scenario_booking_sheets_down answered_events)
  have h2: "is_sync_event SheetsGet" by simp
  have h3: "raises (scenario_env sheets_down) SheetsGet = Some OtherException"
    by (simp add: scenario_env_sel sheets_down_def only_def)
  from mirror_failure_suppresses_confirmation [OF h1 h2 h3]
  have "length (filter is_send
     (new_events empty_world
        (fst (reply (scenario_env sheets_down) booking_text sender empty_world)))) = 1 \<and>
   snd (reply (scenario_env sheets_down) booking_text sender empty_world) = None"
    by simp
  with h1 h2 h3 show ?thesis by blast
qed

text \<open>
  Claim C9, as the specification states it, fails: \<open>sync_appt_to_sheet\<close> is called
  inside the \<open>try\<close> of step 7, before the confirmation is sent. When the spreadsheet
  cannot be read, the booking is stored and the sender gets the chat reply only; with a
  working mirror the same request sends the chat reply and the confirmation.
\<close>

theorem mirror_failure_counterexample:
  "raises (scenario_env sheets_down) SheetsGet = Some OtherException \<and>
   appointments (fst (reply (scenario_env sheets_down) booking_text sender empty_world)) =
     [jane_row ''showing''] \<and>
   filter is_send
     (events (fst (reply (scenario_env sheets_down) booking_text sender empty_world))) =
     [SendMessage (lit ''+15550100'') (PStr (lit ''Checking...''))] \<and>
   filter is_send
     (events (fst (reply (scenario_env no_failure) booking_text sender empty_world))) =
     [SendMessage (lit ''+15550100'') (PStr (lit ''Checking...'')),
      SendMessage (lit ''+15550100'')
        (PStr (confirmation_msg (scenario_env no_failure) (a_name (jane_row ''showing''))
                 (a_type (jane_row ''showing'')) (PStr (lit ''2026-03-02''))
                 (PStr (lit ''14:00''))))]"
proof -
  have r: "reply (scenario_env sheets_down) booking_text sender empty_world =
      process_appointment (scenario_env sheets_down) (lit ''+15550100'') (jane ''showing'')
        (answered booking_text [])"
    by (rule scenario_reply) (simp_all add: sheets_down_def only_def)
  have q: "reply (scenario_env no_failure) booking_text sender empty_world =
      process_appointment (scenario_env no_failure) (lit ''+15550100'') (jane ''showing'')
        (answered booking_text [])"
    by (rule scenario_reply) (simp_all add: no_failure_def)
  have h: "raises (scenario_env sheets_down) SheetsGet = Some OtherException"
    by (simp add: scenario_env_sel sheets_down_def only_def)
  show ?thesis
    by (simp add: h r q scenario_booking_sheets_down scenario_booking_no_failure answered_sends)
qed

theorem cancellation_skips_conflict_check_witness:
  "map_of (jane_fields ''cancellation'') (lit ''name'') = Some (PStr (lit ''Jane Doe'')) \<and>
   map_of (jane_fields ''cancellation'') (lit ''type'') = Some (PStr (lit ''cancellation'')) \<and>
   map_of (jane_fields ''cancellation'') (lit ''date'') = Some (PStr (lit ''2026-03-02'')) \<and>
   map_of (jane_fields ''cancellation'') (lit ''time'') = Some (PStr (lit ''14:00'')) \<and>
   strptime (scenario_env no_failure) (lit ''2026-03-02 14:00'') = Inr (at_time march_2nd 14 0) \<and>
   appointments (world_with [jane_row ''showing'']) = [jane_row ''showing''] \<and>
   appointments
     (fst (process_appointment (scenario_env no_failure) (lit ''+15550100'')
        (PDict (jane_fields ''cancellation'')) (world_with [jane_row ''showing'']))) =
     [jane_row ''showing'', jane_row ''cancellation'']"
proof -
  let ?E = "scenario_env no_failure"
  have h1: "map_of (jane_fields ''cancellation'') (lit ''name'') = Some (PStr (lit ''Jane Doe''))"
    and h2: "map_of (jane_fields ''cancellation'') (lit ''type'') = Some (PStr (lit ''cancellation''))"
    and h3: "map_of (jane_fields ''cancellation'') (lit ''date'') = Some (PStr (lit ''2026-03-02''))"
    and h4: "map_of (jane_fields ''cancellation'') (lit ''time'') = Some (PStr (lit ''14:00''))"
    by (simp_all add: jane_fields_def lit_def)
  have s: "strptime ?E (lit ''2026-03-02 14:00'') = Inr (at_time march_2nd 14 0)"
    by (simp add: scenario_env_sel scenario_strptime_def)
  have j: "fmt ?E (PStr (lit ''2026-03-02'')) @ [32] @ fmt ?E (PStr (lit ''14:00'')) =
      lit ''2026-03-02 14:00''"
    by (simp add: fmt_def lit_def)
  from s j have h5: "strptime ?E (fmt ?E (PStr (lit ''2026-03-02'')) @ [32] @
      fmt ?E (PStr (lit ''14:00''))) = Inr (at_time march_2nd 14 0)"
    by simp
  have h6: "raises ?E (AddCommit (ApptRow
      \<lparr>a_phone = lit ''+15550100'', a_name = PStr (lit ''Jane Doe''),
       a_type = PStr (lit ''cancellation''),
       a_date = dt_date (at_time march_2nd 14 0), a_time = dt_time (at_time march_2nd 14 0)\<rparr>)) = None"
    by (simp add: scenario_env_sel no_failure_def)
  have row: "\<lparr>a_phone = lit ''+15550100'', a_name = PStr (lit ''Jane Doe''),
       a_type = PStr (lit ''cancellation''),
       a_date = dt_date (at_time march_2nd 14 0), a_time = dt_time (at_time march_2nd 14 0)\<rparr> =
      jane_row ''cancellation''"
    by (simp add: jane_row_def jane_at_def at_time_def)
  have w: "appointments (world_with [jane_row ''showing'']) = [jane_row ''showing'']"
    by (simp add: world_with_def)
  from cancellation_skips_conflict_check
    [OF h1 h2 h3 h4 h5 h6, of "world_with [jane_row ''showing'']"]
  have "appointments
     (fst (process_appointment ?E (lit ''+15550100'')
        (PDict (jane_fields ''cancellation'')) (world_with [jane_row ''showing'']))) =
     [jane_row ''showing'', jane_row ''cancellation'']"
    by (simp add: row w)
  with h1 h2 h3 h4 s w show ?thesis by blast
qed

end
